theory Spec2Isabelle
  imports Complex_Main
begin

section \<open>JavaScript values and numbers\<close>

text \<open>
  The TypeScript sources use \<open>number\<close> for byte counts, scores and distances and
  \<open>unknown\<close> for stored values and task metadata. Numbers are modelled as exact reals
  (no rounding; the reputation tracker's scores, further down, also range over the
  non-finite values), timestamps as integer milliseconds, and \<open>unknown\<close> values as
  the datatype below. \<open>truthy\<close> is the test JavaScript applies in \<open>if (v)\<close> and
  \<open>v || d\<close>.
\<close>

datatype jsval = JUndefined | JNull | JBool bool | JNum real | JStr string | JObj

fun truthy :: "jsval \<Rightarrow> bool" where
  "truthy JUndefined = False"
| "truthy JNull = False"
| "truthy (JBool b) = b"
| "truthy (JNum x) = (x \<noteq> 0)"
| "truthy (JStr s) = (s \<noteq> [])"
| "truthy JObj = True"

text \<open>\<open>v || d\<close> on an optional number: an absent or zero value gives the default.\<close>

definition num_or :: "real option \<Rightarrow> real \<Rightarrow> real" where
  "num_or v d = (case v of None \<Rightarrow> d | Some x \<Rightarrow> if x = 0 then d else x)"

section \<open>FlowController (neural-mesh/src/flow-control/FlowController.ts)\<close>

record FlowControlConfig =
  maxBufferSize :: real
  highWaterMark :: real
  lowWaterMark :: real

record FlowController =
  bufferSize :: real
  paused :: bool
  config :: FlowControlConfig

text \<open>The constructor: every missing (or zero) option takes its default.\<close>

definition newFlowController :: "real option \<Rightarrow> real option \<Rightarrow> real option \<Rightarrow> FlowController" where
  "newFlowController maxB high low =
     \<lparr> bufferSize = 0, paused = False,
       config = \<lparr> maxBufferSize = num_or maxB (10 * 1024 * 1024),
                  highWaterMark = num_or high 80,
                  lowWaterMark = num_or low 20 \<rparr> \<rparr>"

definition highThreshold :: "FlowController \<Rightarrow> real" where
  "highThreshold fc = (maxBufferSize (config fc) * highWaterMark (config fc)) / 100"

definition lowThreshold :: "FlowController \<Rightarrow> real" where
  "lowThreshold fc = (maxBufferSize (config fc) * lowWaterMark (config fc)) / 100"

text \<open>\<open>write\<close> and \<open>drain\<close> return the boolean result and the updated controller.\<close>

definition "write" :: "FlowController \<Rightarrow> real \<Rightarrow> bool \<times> FlowController" where
  "write fc dataSize =
     (let fc1 = fc\<lparr>bufferSize := bufferSize fc + dataSize\<rparr>
      in if \<not> paused fc1 \<and> bufferSize fc1 > highThreshold fc1
         then (False, fc1\<lparr>paused := True\<rparr>)
         else (True, fc1))"

definition drain :: "FlowController \<Rightarrow> real \<Rightarrow> bool \<times> FlowController" where
  "drain fc dataSize =
     (let fc1 = fc\<lparr>bufferSize := max 0 (bufferSize fc - dataSize)\<rparr>
      in if paused fc1 \<and> bufferSize fc1 < lowThreshold fc1
         then (True, fc1\<lparr>paused := False\<rparr>)
         else (paused fc1, fc1))"

definition isPaused :: "FlowController \<Rightarrow> bool" where
  "isPaused fc = paused fc"

definition reset :: "FlowController \<Rightarrow> FlowController" where
  "reset fc = fc\<lparr>bufferSize := 0, paused := False\<rparr>"

section \<open>RoutingTable (neural-mesh/src/routing/RoutingTable.ts)\<close>

record RouteEntry =
  destination :: string
  nextHop :: string
  distance :: real
  route_timestamp :: int

record RoutingTable =
  routes :: "string \<rightharpoonup> RouteEntry"
  nodeId :: string
  ttl :: int

text \<open>The constructor keeps the default TTL of five minutes unless a non-zero one is given.\<close>

definition newRoutingTable :: "string \<Rightarrow> int option \<Rightarrow> RoutingTable" where
  "newRoutingTable nid t =
     \<lparr> routes = Map.empty, nodeId = nid,
       ttl = (case t of None \<Rightarrow> 300000 | Some x \<Rightarrow> if x = 0 then 300000 else x) \<rparr>"

text \<open>\<open>now\<close> is the clock read by \<open>new Date()\<close> and \<open>Date.now()\<close>.\<close>

definition addRoute :: "int \<Rightarrow> RoutingTable \<Rightarrow> string \<Rightarrow> string \<Rightarrow> real \<Rightarrow> RoutingTable" where
  "addRoute now rt dest hop d =
     (if dest = nodeId rt then rt
      else case routes rt dest of
             Some existing \<Rightarrow>
               if distance existing \<le> d then rt
               else rt\<lparr>routes := (routes rt)(dest \<mapsto>
                      \<lparr>destination = dest, nextHop = hop, distance = d, route_timestamp = now\<rparr>)\<rparr>
           | None \<Rightarrow>
               rt\<lparr>routes := (routes rt)(dest \<mapsto>
                      \<lparr>destination = dest, nextHop = hop, distance = d, route_timestamp = now\<rparr>)\<rparr>)"

text \<open>The distance parameter defaults to 1.\<close>

definition addRouteDefault :: "int \<Rightarrow> RoutingTable \<Rightarrow> string \<Rightarrow> string \<Rightarrow> RoutingTable" where
  "addRouteDefault now rt dest hop = addRoute now rt dest hop 1"

definition isExpired :: "int \<Rightarrow> RoutingTable \<Rightarrow> RouteEntry \<Rightarrow> bool" where
  "isExpired now rt route = (now - route_timestamp route > ttl rt)"

definition getRoute :: "int \<Rightarrow> RoutingTable \<Rightarrow> string \<Rightarrow> RouteEntry option \<times> RoutingTable" where
  "getRoute now rt dest =
     (case routes rt dest of
        None \<Rightarrow> (None, rt)
      | Some route \<Rightarrow>
          if isExpired now rt route then (None, rt\<lparr>routes := (routes rt)(dest := None)\<rparr>)
          else (Some route, rt))"

definition removeRoute :: "RoutingTable \<Rightarrow> string \<Rightarrow> RoutingTable" where
  "removeRoute rt dest = rt\<lparr>routes := (routes rt)(dest := None)\<rparr>"

section \<open>ReputationTracker (agent-registry/src/reputation/ReputationTracker.ts)\<close>

text \<open>
  A reputation score is a JavaScript \<open>number\<close> that callers pass in freely, so here the
  non-finite values are part of the model: \<open>jsnum\<close> is a real, one of the two infinities,
  or \<open>NaN\<close>. \<open>js_min\<close> and \<open>js_max\<close> are \<open>Math.min\<close> and \<open>Math.max\<close> (\<open>NaN\<close> when an
  argument is \<open>NaN\<close>), \<open>js_add\<close> and \<open>js_sub\<close> are \<open>+\<close> and \<open>-\<close> (opposite infinities
  cancel to \<open>NaN\<close>), and \<open>js_less\<close> is \<open><\<close> (false when an argument is \<open>NaN\<close>).
  Rounding of finite values is not modelled.
\<close>

datatype jsnum = Num real | PosInf | NegInf | NaN

fun js_min :: "jsnum \<Rightarrow> jsnum \<Rightarrow> jsnum" where
  "js_min NaN b = NaN"
| "js_min a NaN = NaN"
| "js_min NegInf b = NegInf"
| "js_min a NegInf = NegInf"
| "js_min PosInf b = b"
| "js_min a PosInf = a"
| "js_min (Num x) (Num y) = Num (min x y)"

fun js_max :: "jsnum \<Rightarrow> jsnum \<Rightarrow> jsnum" where
  "js_max NaN b = NaN"
| "js_max a NaN = NaN"
| "js_max PosInf b = PosInf"
| "js_max a PosInf = PosInf"
| "js_max NegInf b = b"
| "js_max a NegInf = a"
| "js_max (Num x) (Num y) = Num (max x y)"

fun js_add :: "jsnum \<Rightarrow> jsnum \<Rightarrow> jsnum" where
  "js_add NaN b = NaN"
| "js_add a NaN = NaN"
| "js_add PosInf NegInf = NaN"
| "js_add NegInf PosInf = NaN"
| "js_add PosInf b = PosInf"
| "js_add a PosInf = PosInf"
| "js_add NegInf b = NegInf"
| "js_add a NegInf = NegInf"
| "js_add (Num x) (Num y) = Num (x + y)"

fun js_sub :: "jsnum \<Rightarrow> jsnum \<Rightarrow> jsnum" where
  "js_sub NaN b = NaN"
| "js_sub a NaN = NaN"
| "js_sub PosInf PosInf = NaN"
| "js_sub NegInf NegInf = NaN"
| "js_sub PosInf b = PosInf"
| "js_sub a PosInf = NegInf"
| "js_sub NegInf b = NegInf"
| "js_sub a NegInf = PosInf"
| "js_sub (Num x) (Num y) = Num (x - y)"

fun js_less :: "jsnum \<Rightarrow> jsnum \<Rightarrow> bool" where
  "js_less NaN b = False"
| "js_less a NaN = False"
| "js_less PosInf b = False"
| "js_less a NegInf = False"
| "js_less NegInf b = True"
| "js_less a PosInf = True"
| "js_less (Num x) (Num y) = (x < y)"

text \<open>The three reputation constants of \<open>DEFAULTS\<close> (shared/src/constants/index.ts).\<close>

definition REPUTATION_THRESHOLD_QUARANTINE :: real where
  "REPUTATION_THRESHOLD_QUARANTINE = 0.3"

definition REPUTATION_INCREMENT_SUCCESS :: real where
  "REPUTATION_INCREMENT_SUCCESS = 0.1"

definition REPUTATION_DECREMENT_FAILURE :: real where
  "REPUTATION_DECREMENT_FAILURE = 0.2"

record ReputationRecord =
  agentId :: string
  score :: jsnum
  successCount :: nat
  failureCount :: nat
  lastUpdated :: int

type_synonym ReputationTracker = "string \<rightharpoonup> ReputationRecord"

definition initializeAgent :: "int \<Rightarrow> ReputationTracker \<Rightarrow> string \<Rightarrow> jsnum \<Rightarrow> ReputationTracker" where
  "initializeAgent now rep aid initialScore =
     (if rep aid = None
      then rep(aid \<mapsto> \<lparr> agentId = aid, score = js_max (Num 0) (js_min (Num 1) initialScore),
                        successCount = 0, failureCount = 0, lastUpdated = now \<rparr>)
      else rep)"

text \<open>The score parameter defaults to 1.0.\<close>

definition initializeAgentDefault :: "int \<Rightarrow> ReputationTracker \<Rightarrow> string \<Rightarrow> ReputationTracker" where
  "initializeAgentDefault now rep aid = initializeAgent now rep aid (Num 1)"

text \<open>
  \<open>getOrCreateRecord\<close> returns the record together with the tracker, in which the record
  now exists; the source's non-null assertion is \<open>the\<close>, and
  \<open>getOrCreateRecord_present\<close> below shows the lookup never misses.
\<close>

definition getOrCreateRecord :: "int \<Rightarrow> ReputationTracker \<Rightarrow> string \<Rightarrow> ReputationRecord \<times> ReputationTracker" where
  "getOrCreateRecord now rep aid =
     (let rep1 = (if rep aid = None then initializeAgentDefault now rep aid else rep)
      in (the (rep1 aid), rep1))"

text \<open>The record is mutated in place, that is, the map entry is replaced.\<close>

definition recordSuccess :: "int \<Rightarrow> ReputationTracker \<Rightarrow> string \<Rightarrow> ReputationTracker" where
  "recordSuccess now rep aid =
     (let (r, rep1) = getOrCreateRecord now rep aid;
          r1 = r\<lparr>successCount := successCount r + 1\<rparr>;
          r2 = r1\<lparr>score := js_min (Num 1) (js_add (score r1) (Num REPUTATION_INCREMENT_SUCCESS))\<rparr>;
          r3 = r2\<lparr>lastUpdated := now\<rparr>
      in rep1(aid \<mapsto> r3))"

definition recordFailure :: "int \<Rightarrow> ReputationTracker \<Rightarrow> string \<Rightarrow> ReputationTracker" where
  "recordFailure now rep aid =
     (let (r, rep1) = getOrCreateRecord now rep aid;
          r1 = r\<lparr>failureCount := failureCount r + 1\<rparr>;
          r2 = r1\<lparr>score := js_max (Num 0) (js_sub (score r1) (Num REPUTATION_DECREMENT_FAILURE))\<rparr>;
          r3 = r2\<lparr>lastUpdated := now\<rparr>
      in rep1(aid \<mapsto> r3))"

definition getReputation :: "ReputationTracker \<Rightarrow> string \<Rightarrow> ReputationRecord option" where
  "getReputation rep aid = rep aid"

definition getScore :: "int \<Rightarrow> ReputationTracker \<Rightarrow> string \<Rightarrow> jsnum \<times> ReputationTracker" where
  "getScore now rep aid = (let (r, rep1) = getOrCreateRecord now rep aid in (score r, rep1))"

definition shouldQuarantine :: "int \<Rightarrow> ReputationTracker \<Rightarrow> string \<Rightarrow> bool \<times> ReputationTracker" where
  "shouldQuarantine now rep aid =
     (let (s, rep1) = getScore now rep aid
      in (js_less s (Num REPUTATION_THRESHOLD_QUARANTINE), rep1))"

text \<open>
  A sequence of tracker calls, each with the clock value it reads; \<open>initializes_NaN\<close>
  marks an \<open>initializeAgent\<close> call whose initial score is \<open>NaN\<close>.
\<close>

datatype rep_call = InitializeAgent int string jsnum | RecordSuccess int string | RecordFailure int string

fun rep_call_run :: "ReputationTracker \<Rightarrow> rep_call \<Rightarrow> ReputationTracker" where
  "rep_call_run rep (InitializeAgent now aid s0) = initializeAgent now rep aid s0"
| "rep_call_run rep (RecordSuccess now aid) = recordSuccess now rep aid"
| "rep_call_run rep (RecordFailure now aid) = recordFailure now rep aid"

fun initializes_NaN :: "rep_call \<Rightarrow> bool" where
  "initializes_NaN (InitializeAgent now aid s0) = (s0 = NaN)"
| "initializes_NaN (RecordSuccess now aid) = False"
| "initializes_NaN (RecordFailure now aid) = False"

text \<open>A score that is a real number of the unit interval.\<close>

fun in_unit :: "jsnum \<Rightarrow> bool" where
  "in_unit (Num x) = (0 \<le> x \<and> x \<le> 1)"
| "in_unit PosInf = False"
| "in_unit NegInf = False"
| "in_unit NaN = False"

definition scores_in_range :: "ReputationTracker \<Rightarrow> bool" where
  "scores_in_range rep = (\<forall>aid r. rep aid = Some r \<longrightarrow> in_unit (score r))"

section \<open>StateStore (neural-mesh/src/synchronization/StateStore.ts)\<close>

record StateChange =
  key :: string
  oldValue :: jsval
  newValue :: jsval
  timestamp :: int
  source :: string

text \<open>
  The store holds the value map, the version map and its node id. Listeners only observe:
  \<open>notified\<close> is the log of the change records handed to \<open>notifyListeners\<close>, oldest
  first. A key bound to \<open>JUndefined\<close> is a key that \<open>setState\<close> bound to \<open>undefined\<close>.
\<close>

record StateStore =
  state :: "string \<rightharpoonup> jsval"
  version :: "string \<rightharpoonup> nat"
  store_nodeId :: string
  notified :: "StateChange list"

definition newStateStore :: "string \<Rightarrow> StateStore" where
  "newStateStore nid = \<lparr> state = Map.empty, version = Map.empty, store_nodeId = nid, notified = [] \<rparr>"

definition notifyListeners :: "StateStore \<Rightarrow> StateChange \<Rightarrow> StateStore" where
  "notifyListeners s change = s\<lparr>notified := notified s @ [change]\<rparr>"

text \<open>\<open>this.state.get(key)\<close>: a missing key reads as \<open>undefined\<close>.\<close>

definition getState :: "StateStore \<Rightarrow> string \<Rightarrow> jsval" where
  "getState s k = (case state s k of None \<Rightarrow> JUndefined | Some v \<Rightarrow> v)"

text \<open>\<open>this.version.get(key) || 0\<close>.\<close>

definition getVersion :: "StateStore \<Rightarrow> string \<Rightarrow> nat" where
  "getVersion s k = (case version s k of None \<Rightarrow> 0 | Some n \<Rightarrow> n)"

definition setState :: "int \<Rightarrow> StateStore \<Rightarrow> string \<Rightarrow> jsval \<Rightarrow> StateStore" where
  "setState now s k v =
     (let old = getState s k;
          currentVersion = getVersion s k;
          s1 = s\<lparr>state := (state s)(k \<mapsto> v)\<rparr>;
          s2 = s1\<lparr>version := (version s1)(k \<mapsto> currentVersion + 1)\<rparr>;
          change = \<lparr> key = k, oldValue = old, newValue = v, timestamp = now,
                     source = store_nodeId s \<rparr>
      in notifyListeners s2 change)"

definition getStateWithVersion :: "StateStore \<Rightarrow> string \<Rightarrow> (jsval \<times> nat) option" where
  "getStateWithVersion s k =
     (let v = getState s k in if v = JUndefined then None else Some (v, getVersion s k))"

definition deleteState :: "int \<Rightarrow> StateStore \<Rightarrow> string \<Rightarrow> StateStore" where
  "deleteState now s k =
     (let old = getState s k
      in if old = JUndefined then s
         else (let s1 = s\<lparr>state := (state s)(k := None)\<rparr>;
                   s2 = s1\<lparr>version := (version s1)(k := None)\<rparr>;
                   change = \<lparr> key = k, oldValue = old, newValue = JUndefined, timestamp = now,
                              source = store_nodeId s \<rparr>
               in notifyListeners s2 change))"

definition applyRemoteChange :: "int \<Rightarrow> StateStore \<Rightarrow> StateChange \<Rightarrow> bool \<times> StateStore" where
  "applyRemoteChange now s change =
     (if timestamp change > now - 60000
      then (True, setState now s (key change) (newValue change))
      else (False, s))"

definition clear :: "StateStore \<Rightarrow> StateStore" where
  "clear s = s\<lparr>state := Map.empty, version := Map.empty\<rparr>"

text \<open>A sequence of calls on one store; \<open>erases_key\<close> marks the calls that can drop a key.\<close>

datatype store_call =
  SetState int string jsval | DeleteState int string | ApplyRemote int StateChange | Clear

fun store_call_run :: "StateStore \<Rightarrow> store_call \<Rightarrow> StateStore" where
  "store_call_run s (SetState now k v) = setState now s k v"
| "store_call_run s (DeleteState now k) = deleteState now s k"
| "store_call_run s (ApplyRemote now change) = snd (applyRemoteChange now s change)"
| "store_call_run s Clear = clear s"

fun erases_key :: "string \<Rightarrow> store_call \<Rightarrow> bool" where
  "erases_key k (DeleteState now k') = (k' = k)"
| "erases_key k Clear = True"
| "erases_key k (SetState now k' v) = False"
| "erases_key k (ApplyRemote now change) = False"

section \<open>Circuit breaker of ResilientOrchestrator (task-orchestrator/src/resilience)\<close>

datatype CircuitBreakerState = Closed | Open | HalfOpen

text \<open>
  Only the breaker bookkeeping is modelled. \<open>pendingResets\<close> holds the callbacks that
  \<open>setTimeout\<close> has scheduled and that have not run yet, as pairs of due time and agent id,
  in scheduling order. \<open>failureThreshold\<close> and \<open>resetTimeout\<close> are the private fields, which
  nothing reassigns.
\<close>

record ResilientOrchestrator =
  circuitBreaker :: "string \<rightharpoonup> CircuitBreakerState"
  breakerFailureCount :: "string \<rightharpoonup> nat"
  pendingResets :: "(int \<times> string) list"

definition newResilientOrchestrator :: ResilientOrchestrator where
  "newResilientOrchestrator =
     \<lparr> circuitBreaker = Map.empty, breakerFailureCount = Map.empty, pendingResets = [] \<rparr>"

definition failureThreshold :: nat where
  "failureThreshold = 5"

definition resetTimeout :: int where
  "resetTimeout = 60000"

definition recordAgentFailure :: "int \<Rightarrow> ResilientOrchestrator \<Rightarrow> string \<Rightarrow> ResilientOrchestrator" where
  "recordAgentFailure now ro aid =
     (let count = (case breakerFailureCount ro aid of None \<Rightarrow> 0 | Some n \<Rightarrow> n) + 1;
          ro1 = ro\<lparr>breakerFailureCount := (breakerFailureCount ro)(aid \<mapsto> count)\<rparr>
      in if count \<ge> failureThreshold
         then ro1\<lparr>circuitBreaker := (circuitBreaker ro1)(aid \<mapsto> Open),
                  pendingResets := pendingResets ro1 @ [(now + resetTimeout, aid)]\<rparr>
         else ro1)"

text \<open>The body of the scheduled callback.\<close>

definition resetCallback :: "ResilientOrchestrator \<Rightarrow> string \<Rightarrow> ResilientOrchestrator" where
  "resetCallback ro aid =
     ro\<lparr>circuitBreaker := (circuitBreaker ro)(aid \<mapsto> HalfOpen),
        breakerFailureCount := (breakerFailureCount ro)(aid \<mapsto> 0)\<rparr>"

definition recordAgentSuccess :: "ResilientOrchestrator \<Rightarrow> string \<Rightarrow> ResilientOrchestrator" where
  "recordAgentSuccess ro aid =
     (let ro1 = ro\<lparr>breakerFailureCount := (breakerFailureCount ro)(aid \<mapsto> 0)\<rparr>
      in if circuitBreaker ro1 aid = Some HalfOpen
         then ro1\<lparr>circuitBreaker := (circuitBreaker ro1)(aid \<mapsto> Closed)\<rparr>
         else ro1)"

text \<open>\<open>this.circuitBreaker.get(agentId) || 'closed'\<close>.\<close>

definition breakerState :: "ResilientOrchestrator \<Rightarrow> string \<Rightarrow> CircuitBreakerState" where
  "breakerState ro aid = (case circuitBreaker ro aid of None \<Rightarrow> Closed | Some st \<Rightarrow> st)"

definition isCircuitOpen :: "ResilientOrchestrator \<Rightarrow> string \<Rightarrow> bool" where
  "isCircuitOpen ro aid = (breakerState ro aid = Open)"

text \<open>
  The timer queue at clock value \<open>now\<close>: every scheduled callback that is due runs, in
  scheduling order, and leaves the queue.
\<close>

fun fireDue :: "int \<Rightarrow> (int \<times> string) list \<Rightarrow> ResilientOrchestrator \<Rightarrow> ResilientOrchestrator" where
  "fireDue now [] ro = ro"
| "fireDue now ((due, aid) # rest) ro =
     (if due \<le> now then fireDue now rest (resetCallback ro aid) else fireDue now rest ro)"

definition runTimers :: "int \<Rightarrow> ResilientOrchestrator \<Rightarrow> ResilientOrchestrator" where
  "runTimers now ro =
     (fireDue now (pendingResets ro) ro)
       \<lparr>pendingResets := filter (\<lambda>(due, aid). \<not> due \<le> now) (pendingResets ro)\<rparr>"

datatype breaker_event = AgentFailure int string | AgentSuccess string | TimersRun int

fun breaker_step :: "ResilientOrchestrator \<Rightarrow> breaker_event \<Rightarrow> ResilientOrchestrator" where
  "breaker_step ro (AgentFailure now aid) = recordAgentFailure now ro aid"
| "breaker_step ro (AgentSuccess aid) = recordAgentSuccess ro aid"
| "breaker_step ro (TimersRun now) = runTimers now ro"

section \<open>Shared types (shared/src/types/index.ts)\<close>

datatype AgentType = LLM | Tool | Service | Human

text \<open>The string each agent type is at run time.\<close>

fun agentTypeName :: "AgentType \<Rightarrow> string" where
  "agentTypeName LLM = ''llm''"
| "agentTypeName Tool = ''tool''"
| "agentTypeName Service = ''service''"
| "agentTypeName Human = ''human''"

datatype AgentStatus = Online | Offline | Degraded | Quarantined

record AgentCapability =
  cap_name :: string
  cap_version :: string
  cap_description :: string
  inputSchema :: "(string \<times> jsval) list"
  outputSchema :: "(string \<times> jsval) list"

record AgentMetadata =
  agent_id :: string
  agent_name :: string
  agent_type :: AgentType
  capabilities :: "AgentCapability list"
  reputationScore :: real
  lastHeartbeat :: int
  agent_status :: AgentStatus

datatype TaskStatus = Pending | Queued | InProgress | Completed | Failed | Retrying

record Task =
  task_id :: string
  parentId :: "string option"
  task_name :: string
  task_description :: string
  objective :: string
  task_status :: TaskStatus
  priority :: real
  assignedAgentId :: "string option"
  dependencies :: "string list"
  createdAt :: int
  startedAt :: "int option"
  completedAt :: "int option"
  metadata :: "string \<rightharpoonup> jsval"
  result :: jsval
  error :: "string option"

text \<open>\<open>task.metadata.name\<close>: a missing property reads as \<open>undefined\<close>.\<close>

definition getMeta :: "Task \<Rightarrow> string \<Rightarrow> jsval" where
  "getMeta task prop = (case metadata task prop of None \<Rightarrow> JUndefined | Some v \<Rightarrow> v)"

record JobMetrics =
  totalTasks :: nat
  completedTasks :: nat
  failedTasks :: nat
  averageTaskDuration :: real
  totalDuration :: "real option"

text \<open>A job refers to its tasks, which live in the orchestrator's task map, by id.\<close>

record Job =
  job_id :: string
  userId :: string
  title :: string
  job_objective :: string
  job_status :: TaskStatus
  job_tasks :: "string list"
  job_createdAt :: int
  job_completedAt :: "int option"
  estimatedCompletionTime :: "real option"
  metrics :: JobMetrics

datatype ErrorCode =
  INVALID_TASK | AGENT_NOT_FOUND | TASK_ASSIGNMENT_FAILED | COMMUNICATION_ERROR
| AUTHENTICATION_ERROR | AUTHORIZATION_ERROR | RESOURCE_EXHAUSTED | UNKNOWN_ERROR

text \<open>The class \<open>NexusError\<close> (shared/src/utils): the thrown value.\<close>

record NexusError =
  code :: ErrorCode
  message :: string
  details :: "(string \<times> jsval) list option"
  error_timestamp :: int

definition newNexusError :: "int \<Rightarrow> ErrorCode \<Rightarrow> string \<Rightarrow> NexusError" where
  "newNexusError now c msg = \<lparr> code = c, message = msg, details = None, error_timestamp = now \<rparr>"

section \<open>AgentRegistry (agent-registry/src/registry/AgentRegistry.ts)\<close>

text \<open>
  The registry is a JavaScript \<open>Map\<close>, which iterates in insertion order: a list of
  entries, where setting an existing key replaces the value in place and a new key goes
  to the end.
\<close>

type_synonym AgentRegistry = "(string \<times> AgentMetadata) list"

fun map_set :: "'k \<Rightarrow> 'v \<Rightarrow> ('k \<times> 'v) list \<Rightarrow> ('k \<times> 'v) list" where
  "map_set k v [] = [(k, v)]"
| "map_set k v ((k', v') # rest) = (if k' = k then (k, v) # rest else (k', v') # map_set k v rest)"

definition register :: "AgentRegistry \<Rightarrow> AgentMetadata \<Rightarrow> AgentRegistry" where
  "register reg agent = map_set (agent_id agent) agent reg"

definition getAllAgents :: "AgentRegistry \<Rightarrow> AgentMetadata list" where
  "getAllAgents reg = map snd reg"

section \<open>TaskRouter (task-orchestrator/src/routing/TaskRouter.ts)\<close>

text \<open>
  The reason string of a decision is \<open>Score: \<close> followed by the score to three decimals,
  or \<open>Fallback agent\<close>; the model keeps which of the two it is.
\<close>

datatype Reason = ScoreReason real | FallbackReason

record RoutingDecision =
  taskId :: string
  decision_agentId :: string
  confidence :: real
  reason :: Reason

definition hasCapability :: "AgentMetadata \<Rightarrow> jsval \<Rightarrow> bool" where
  "hasCapability agent required = list_ex (\<lambda>c. JStr (cap_name c) = required) (capabilities agent)"

definition findCandidateAgents :: "AgentRegistry \<Rightarrow> Task \<Rightarrow> AgentMetadata list" where
  "findCandidateAgents reg task =
     (let allAgents = getAllAgents reg;
          candidates = filter (\<lambda>a. agent_status a = Online \<and> reputationScore a > 0.3) allAgents
      in if candidates = [] then []
         else (let candidates1 =
                     (if truthy (getMeta task ''requiredType'')
                      then filter (\<lambda>a. JStr (agentTypeName (agent_type a)) = getMeta task ''requiredType'')
                             candidates
                      else candidates);
                   candidates2 =
                     (if truthy (getMeta task ''requiredCapability'')
                      then filter (\<lambda>a. hasCapability a (getMeta task ''requiredCapability'')) candidates1
                      else candidates1)
               in candidates2))"

text \<open>
  \<open>scoreAgent\<close>: the early \<open>return 0\<close> is the \<open>None\<close> of the capability step; both other
  branches add 0.3 and go on to the status and heartbeat bonuses.
\<close>

definition scoreAgent :: "int \<Rightarrow> AgentMetadata \<Rightarrow> Task \<Rightarrow> real" where
  "scoreAgent now agent task =
     (let score0 = 0.5;
          score1 = score0 + reputationScore agent * 0.4;
          score2 = (if truthy (getMeta task ''requiredCapability'')
                    then (if hasCapability agent (getMeta task ''requiredCapability'')
                          then Some (score1 + 0.3) else None)
                    else Some (score1 + 0.3))
      in case score2 of
           None \<Rightarrow> 0
         | Some s2 \<Rightarrow>
             (let score3 = (if agent_status agent = Online then s2 + 0.2 else s2);
                  lastHeartbeatAge = now - lastHeartbeat agent;
                  score4 = (if lastHeartbeatAge < 60000 then score3 + 0.1 else score3)
              in min 1 score4))"

text \<open>
  \<open>Array.prototype.sort\<close> is stable, and the comparator \<open>b.score - a.score\<close> orders by
  descending score: \<open>sort_key\<close> on the negated score, an insertion sort that keeps equal
  keys in their order. The first element of a non-empty sorted list is taken by the
  \<open>case\<close>; the list is never empty where the source indexes it.
\<close>

definition findBestAgent :: "int \<Rightarrow> AgentRegistry \<Rightarrow> Task \<Rightarrow> RoutingDecision option" where
  "findBestAgent now reg task =
     (let candidates = findCandidateAgents reg task
      in if length candidates = 0 then None
         else (let scoredCandidates = map (\<lambda>agent. (agent, scoreAgent now agent task)) candidates;
                   sorted = sort_key (\<lambda>c. - snd c) scoredCandidates
               in case sorted of
                    [] \<Rightarrow> None
                  | best # others \<Rightarrow>
                      Some \<lparr> taskId = task_id task, decision_agentId = agent_id (fst best),
                             confidence = snd best, reason = ScoreReason (snd best) \<rparr>))"

definition findAlternativeAgent :: "AgentRegistry \<Rightarrow> Task \<Rightarrow> string \<Rightarrow> RoutingDecision option" where
  "findAlternativeAgent reg task excludeAgentId =
     (let candidates = filter (\<lambda>a. agent_id a \<noteq> excludeAgentId) (findCandidateAgents reg task)
      in case candidates of
           [] \<Rightarrow> None
         | first # others \<Rightarrow>
             Some \<lparr> taskId = task_id task, decision_agentId = agent_id first,
                    confidence = 0.5, reason = FallbackReason \<rparr>)"

text \<open>The filters of \<open>findCandidateAgents\<close> on one agent.\<close>

definition eligible :: "Task \<Rightarrow> AgentMetadata \<Rightarrow> bool" where
  "eligible task a =
     (agent_status a = Online \<and> reputationScore a > 0.3
      \<and> (if truthy (getMeta task ''requiredType'')
          then JStr (agentTypeName (agent_type a)) = getMeta task ''requiredType'' else True)
      \<and> (if truthy (getMeta task ''requiredCapability'')
          then hasCapability a (getMeta task ''requiredCapability'') else True))"

section \<open>TaskOrchestrator (task-orchestrator/src/orchestrator/TaskOrchestrator.ts)\<close>

record TaskOrchestrator =
  tasks :: "string \<rightharpoonup> Task"
  jobs :: "string \<rightharpoonup> Job"

text \<open>
  \<open>getTask\<close> and \<open>getJob\<close> either throw (\<open>Inl\<close>) or return (\<open>Inr\<close>); the orchestrator
  after the call is the second component.
\<close>

definition getTask :: "int \<Rightarrow> TaskOrchestrator \<Rightarrow> string \<Rightarrow> (NexusError + Task) \<times> TaskOrchestrator" where
  "getTask now orch tid =
     (case tasks orch tid of
        None \<Rightarrow> (Inl (newNexusError now INVALID_TASK (''Task not found: '' @ tid)), orch)
      | Some task \<Rightarrow> (Inr task, orch))"

definition getJob :: "int \<Rightarrow> TaskOrchestrator \<Rightarrow> string \<Rightarrow> (NexusError + Job) \<times> TaskOrchestrator" where
  "getJob now orch jid =
     (case jobs orch jid of
        None \<Rightarrow> (Inl (newNexusError now INVALID_TASK (''Job not found: '' @ jid)), orch)
      | Some job \<Rightarrow> (Inr job, orch))"

section \<open>Fixtures of the test suites\<close>

text \<open>
  The task and the agents that TaskRouter.test.ts builds (a task with empty metadata;
  agents of type \<open>llm\<close> without capabilities), and a job as \<open>createJob\<close> makes it.
\<close>

definition testTask :: Task where
  "testTask =
     \<lparr> task_id = ''task-1'', parentId = None, task_name = ''Test Task'',
       task_description = ''Test'', objective = ''Process text'', task_status = Pending,
       priority = 1, assignedAgentId = None, dependencies = [], createdAt = 0,
       startedAt = None, completedAt = None, metadata = Map.empty, result = JUndefined,
       error = None \<rparr>"

definition testAgent :: "string \<Rightarrow> real \<Rightarrow> AgentStatus \<Rightarrow> int \<Rightarrow> AgentMetadata" where
  "testAgent aid rep st hb =
     \<lparr> agent_id = aid, agent_name = aid, agent_type = LLM, capabilities = [],
       reputationScore = rep, lastHeartbeat = hb, agent_status = st \<rparr>"

definition testJob :: Job where
  "testJob =
     \<lparr> job_id = ''job-1'', userId = ''user-1'', title = ''Test Job'', job_objective = ''Test'',
       job_status = Pending, job_tasks = [], job_createdAt = 0, job_completedAt = None,
       estimatedCompletionTime = None,
       metrics = \<lparr> totalTasks = 0, completedTasks = 0, failedTasks = 0,
                   averageTaskDuration = 0, totalDuration = None \<rparr> \<rparr>"

section \<open>Flow control: backpressure and hysteresis\<close>

lemma drain_bufferSize: "bufferSize (snd (drain fc n)) = max 0 (bufferSize fc - n)"
  by (simp add: drain_def Let_def)

text \<open>
  C1, as stated, fails on the code. With capacity 100, high-water 80 and low-water 20,
  \<open>write 90\<close> pauses the controller. A further \<open>write 10\<close> then returns true although
  the counter (100) exceeds the high threshold (80), and a \<open>drain 10\<close> returns true
  although the controller stays paused with the counter (80) at or above the low
  threshold (20).
\<close>

theorem C1_write_drain_counterexample:
  "fst (write (snd (write (newFlowController (Some 100) (Some 80) (Some 20)) 90)) 10) = True
   \<and> bufferSize (snd (write (snd (write (newFlowController (Some 100) (Some 80) (Some 20)) 90)) 10))
       > highThreshold (snd (write (newFlowController (Some 100) (Some 80) (Some 20)) 90))
   \<and> fst (drain (snd (write (newFlowController (Some 100) (Some 80) (Some 20)) 90)) 10) = True
   \<and> paused (snd (drain (snd (write (newFlowController (Some 100) (Some 80) (Some 20)) 90)) 10))
   \<and> bufferSize (snd (drain (snd (write (newFlowController (Some 100) (Some 80) (Some 20)) 90)) 10))
       \<ge> lowThreshold (snd (write (newFlowController (Some 100) (Some 80) (Some 20)) 90))"
  by (simp add: write_def drain_def newFlowController_def num_or_def highThreshold_def
      lowThreshold_def Let_def)

text \<open>
  C1 (amended): from every controller state, hence after every sequence of writes and
  drains: \<open>write\<close> returns false exactly when the controller is not already paused and the
  counter, after adding the size, exceeds the high threshold, and it is paused afterwards
  exactly when it was paused before or that threshold is exceeded; \<open>drain\<close> leaves the
  controller paused exactly when it was paused and the counter, after subtracting the size
  (floored at 0), is at or above the low threshold, so it resumes only strictly below the
  low threshold, and when it resumes it returns true.
\<close>

theorem C1_write_drain_hysteresis:
  "(fst (write fc n) = False) = (\<not> paused fc \<and> bufferSize fc + n > highThreshold fc)
   \<and> paused (snd (write fc n)) = (paused fc \<or> bufferSize fc + n > highThreshold fc)
   \<and> bufferSize (snd (write fc n)) = bufferSize fc + n
   \<and> bufferSize (snd (drain fc m)) = max 0 (bufferSize fc - m)
   \<and> paused (snd (drain fc m)) = (paused fc \<and> lowThreshold fc \<le> max 0 (bufferSize fc - m))
   \<and> (paused fc \<and> max 0 (bufferSize fc - m) < lowThreshold fc \<longrightarrow>
        fst (drain fc m) = True \<and> \<not> paused (snd (drain fc m)))
   \<and> (paused fc \<and> lowThreshold fc \<le> bufferSize (snd (drain fc m)) \<longrightarrow>
        paused (snd (drain fc m)))"
  by (auto simp add: write_def drain_def Let_def highThreshold_def lowThreshold_def)

text \<open>
  The amended C1 on the controller paused by \<open>write 90\<close> (capacity 100, thresholds 80 and
  20): \<open>drain 75\<close> leaves 15 and resumes, \<open>drain 10\<close> leaves 80 and stays paused.
\<close>

theorem C1_write_drain_hysteresis_witness:
  "paused (snd (write (newFlowController (Some 100) (Some 80) (Some 20)) 90))
   \<and> max 0 (bufferSize (snd (write (newFlowController (Some 100) (Some 80) (Some 20)) 90)) - 75)
       < lowThreshold (snd (write (newFlowController (Some 100) (Some 80) (Some 20)) 90))
   \<and> fst (drain (snd (write (newFlowController (Some 100) (Some 80) (Some 20)) 90)) 75) = True
   \<and> \<not> paused (snd (drain (snd (write (newFlowController (Some 100) (Some 80) (Some 20)) 90)) 75))
   \<and> lowThreshold (snd (write (newFlowController (Some 100) (Some 80) (Some 20)) 90))
       \<le> bufferSize (snd (drain (snd (write (newFlowController (Some 100) (Some 80) (Some 20)) 90)) 10))
   \<and> paused (snd (drain (snd (write (newFlowController (Some 100) (Some 80) (Some 20)) 90)) 10))"
proof -
  have p: "paused (snd (write (newFlowController (Some 100) (Some 80) (Some 20)) 90))"
    by (simp add: write_def newFlowController_def num_or_def highThreshold_def Let_def)
  have low: "max 0 (bufferSize (snd (write (newFlowController (Some 100) (Some 80) (Some 20)) 90)) - 75)
       < lowThreshold (snd (write (newFlowController (Some 100) (Some 80) (Some 20)) 90))"
    by (simp add: write_def newFlowController_def num_or_def highThreshold_def lowThreshold_def
        Let_def)
  have high: "lowThreshold (snd (write (newFlowController (Some 100) (Some 80) (Some 20)) 90))
       \<le> bufferSize (snd (drain (snd (write (newFlowController (Some 100) (Some 80) (Some 20)) 90)) 10))"
    by (simp add: drain_bufferSize)
       (simp add: write_def newFlowController_def num_or_def highThreshold_def lowThreshold_def
          Let_def)
  from C1_write_drain_hysteresis
         [of "snd (write (newFlowController (Some 100) (Some 80) (Some 20)) 90)" 0 75] p low
  have resume: "fst (drain (snd (write (newFlowController (Some 100) (Some 80) (Some 20)) 90)) 75) = True
     \<and> \<not> paused (snd (drain (snd (write (newFlowController (Some 100) (Some 80) (Some 20)) 90)) 75))"
    by blast
  from C1_write_drain_hysteresis
         [of "snd (write (newFlowController (Some 100) (Some 80) (Some 20)) 90)" 0 10] p high
  have stay: "paused (snd (drain (snd (write (newFlowController (Some 100) (Some 80) (Some 20)) 90)) 10))"
    by blast
  from p low high resume stay show ?thesis by blast
qed

section \<open>Routing table: only strictly shorter routes replace an entry\<close>

text \<open>
  C7: for every table, destination, next hop, distance and clock value: an \<open>addRoute\<close> to
  the local node id leaves the table unchanged; for any other destination the table is
  unchanged when an entry with a distance less than or equal to the new one exists (equal
  distances keep the existing route), and the new route is stored when no entry exists or
  the existing entry's distance is strictly greater.
\<close>

theorem C7_addRoute_shorter_only:
  "(dest = nodeId rt \<longrightarrow> addRoute now rt dest hop d = rt)
   \<and> (dest \<noteq> nodeId rt \<and> routes rt dest = Some e \<and> distance e \<le> d
        \<longrightarrow> addRoute now rt dest hop d = rt)
   \<and> (dest \<noteq> nodeId rt \<and> (routes rt dest = None \<or> (routes rt dest = Some e \<and> d < distance e))
        \<longrightarrow> addRoute now rt dest hop d
              = rt\<lparr>routes := (routes rt)(dest \<mapsto>
                   \<lparr>destination = dest, nextHop = hop, distance = d, route_timestamp = now\<rparr>)\<rparr>)"
  by (auto simp add: addRoute_def)

text \<open>
  C7 on the table of node \<open>n1\<close>: a self-route, a first route to \<open>n2\<close> at distance 2,
  then a route of equal distance (kept out) and one of distance 1 (stored).
\<close>

theorem C7_addRoute_shorter_only_witness:
  "''n1'' = nodeId (newRoutingTable ''n1'' None)
   \<and> addRoute 5 (newRoutingTable ''n1'' None) ''n1'' ''n2'' 1 = newRoutingTable ''n1'' None
   \<and> ''n2'' \<noteq> nodeId (newRoutingTable ''n1'' None)
   \<and> routes (newRoutingTable ''n1'' None) ''n2'' = None
   \<and> routes (addRoute 5 (newRoutingTable ''n1'' None) ''n2'' ''n3'' 2) ''n2''
       = Some \<lparr>destination = ''n2'', nextHop = ''n3'', distance = 2, route_timestamp = 5\<rparr>
   \<and> distance \<lparr>destination = ''n2'', nextHop = ''n3'', distance = 2, route_timestamp = 5\<rparr> \<le> (2::real)
   \<and> addRoute 9 (addRoute 5 (newRoutingTable ''n1'' None) ''n2'' ''n3'' 2) ''n2'' ''n4'' 2
       = addRoute 5 (newRoutingTable ''n1'' None) ''n2'' ''n3'' 2
   \<and> (1::real) < distance \<lparr>destination = ''n2'', nextHop = ''n3'', distance = 2, route_timestamp = 5\<rparr>
   \<and> routes (addRoute 9 (addRoute 5 (newRoutingTable ''n1'' None) ''n2'' ''n3'' 2) ''n2'' ''n4'' 1) ''n2''
       = Some \<lparr>destination = ''n2'', nextHop = ''n4'', distance = 1, route_timestamp = 9\<rparr>"
  using C7_addRoute_shorter_only [where dest="''n1''" and rt="newRoutingTable ''n1'' None"
            and now=5 and hop="''n2''" and d=1]
        C7_addRoute_shorter_only [where dest="''n2''" and rt="newRoutingTable ''n1'' None"
            and now=5 and hop="''n3''" and d=2]
        C7_addRoute_shorter_only [where dest="''n2''"
            and rt="addRoute 5 (newRoutingTable ''n1'' None) ''n2'' ''n3'' 2"
            and e="\<lparr>destination = ''n2'', nextHop = ''n3'', distance = 2, route_timestamp = 5\<rparr>"
            and now=9 and hop="''n4''" and d=2]
        C7_addRoute_shorter_only [where dest="''n2''"
            and rt="addRoute 5 (newRoutingTable ''n1'' None) ''n2'' ''n3'' 2"
            and e="\<lparr>destination = ''n2'', nextHop = ''n3'', distance = 2, route_timestamp = 5\<rparr>"
            and now=9 and hop="''n4''" and d=1]
  by (simp add: newRoutingTable_def)

section \<open>Reputation: bounded updates\<close>

lemma getOrCreateRecord_present:
  "snd (getOrCreateRecord now rep aid) aid = Some (fst (getOrCreateRecord now rep aid))"
  by (auto simp add: getOrCreateRecord_def initializeAgentDefault_def initializeAgent_def Let_def)

lemma getOrCreateRecord_existing:
  "rep aid = Some r \<Longrightarrow> getOrCreateRecord now rep aid = (r, rep)"
  by (simp add: getOrCreateRecord_def Let_def)

lemma getOrCreateRecord_fresh:
  "rep aid = None \<Longrightarrow> getOrCreateRecord now rep aid =
     (\<lparr> agentId = aid, score = Num 1, successCount = 0, failureCount = 0, lastUpdated = now \<rparr>,
      rep(aid \<mapsto> \<lparr> agentId = aid, score = Num 1, successCount = 0, failureCount = 0,
                   lastUpdated = now \<rparr>))"
  by (simp add: getOrCreateRecord_def initializeAgentDefault_def initializeAgent_def Let_def)

lemma clamp_in_unit: "s \<noteq> NaN \<Longrightarrow> in_unit (js_max (Num 0) (js_min (Num 1) s))"
  by (cases s) simp_all

lemma clamp_NaN: "js_max (Num 0) (js_min (Num 1) NaN) = NaN"
  by simp

lemma success_in_unit: "in_unit s \<Longrightarrow> in_unit (js_min (Num 1) (js_add s (Num 0.1)))"
  by (cases s) simp_all

lemma failure_in_unit: "in_unit s \<Longrightarrow> in_unit (js_max (Num 0) (js_sub s (Num 0.2)))"
  by (cases s) simp_all

lemma scores_in_range_initializeAgent:
  "scores_in_range rep \<Longrightarrow> initial \<noteq> NaN \<Longrightarrow> scores_in_range (initializeAgent now rep aid initial)"
  by (auto simp add: scores_in_range_def initializeAgent_def clamp_in_unit)

lemma recordSuccess_other: "b \<noteq> aid \<Longrightarrow> recordSuccess now rep aid b = rep b"
  by (simp add: recordSuccess_def getOrCreateRecord_def initializeAgentDefault_def
      initializeAgent_def Let_def)

lemma recordFailure_other: "b \<noteq> aid \<Longrightarrow> recordFailure now rep aid b = rep b"
  by (simp add: recordFailure_def getOrCreateRecord_def initializeAgentDefault_def
      initializeAgent_def Let_def)

lemma recordSuccess_same:
  "recordSuccess now rep aid aid = Some r' \<Longrightarrow>
     score r' = js_min (Num 1)
       (js_add (case rep aid of None \<Rightarrow> Num 1 | Some r \<Rightarrow> score r) (Num 0.1))"
  by (cases "rep aid")
     (auto simp add: recordSuccess_def getOrCreateRecord_existing getOrCreateRecord_fresh
        REPUTATION_INCREMENT_SUCCESS_def Let_def)

lemma recordFailure_same:
  "recordFailure now rep aid aid = Some r' \<Longrightarrow>
     score r' = js_max (Num 0)
       (js_sub (case rep aid of None \<Rightarrow> Num 1 | Some r \<Rightarrow> score r) (Num 0.2))"
  by (cases "rep aid")
     (auto simp add: recordFailure_def getOrCreateRecord_existing getOrCreateRecord_fresh
        REPUTATION_DECREMENT_FAILURE_def Let_def)

lemma stored_or_default_in_unit:
  "scores_in_range rep \<Longrightarrow> in_unit (case rep aid of None \<Rightarrow> Num 1 | Some r \<Rightarrow> score r)"
  by (auto simp add: scores_in_range_def split: option.splits)

lemma scores_in_range_recordSuccess:
  assumes "scores_in_range rep"
  shows "scores_in_range (recordSuccess now rep aid)"
  unfolding scores_in_range_def
proof (intro allI impI)
  fix b r'
  assume h: "recordSuccess now rep aid b = Some r'"
  show "in_unit (score r')"
  proof (cases "b = aid")
    case False
    then show ?thesis using h assms by (simp add: recordSuccess_other scores_in_range_def)
  next
    case True
    then have "score r' = js_min (Num 1)
       (js_add (case rep aid of None \<Rightarrow> Num 1 | Some r \<Rightarrow> score r) (Num 0.1))"
      using h recordSuccess_same by simp
    then show ?thesis
      using success_in_unit [OF stored_or_default_in_unit [OF assms, of aid]] by simp
  qed
qed

lemma scores_in_range_recordFailure:
  assumes "scores_in_range rep"
  shows "scores_in_range (recordFailure now rep aid)"
  unfolding scores_in_range_def
proof (intro allI impI)
  fix b r'
  assume h: "recordFailure now rep aid b = Some r'"
  show "in_unit (score r')"
  proof (cases "b = aid")
    case False
    then show ?thesis using h assms by (simp add: recordFailure_other scores_in_range_def)
  next
    case True
    then have "score r' = js_max (Num 0)
       (js_sub (case rep aid of None \<Rightarrow> Num 1 | Some r \<Rightarrow> score r) (Num 0.2))"
      using h recordFailure_same by simp
    then show ?thesis
      using failure_in_unit [OF stored_or_default_in_unit [OF assms, of aid]] by simp
  qed
qed

lemma scores_in_range_run:
  "scores_in_range rep \<Longrightarrow> \<forall>c \<in> set calls. \<not> initializes_NaN c
   \<Longrightarrow> scores_in_range (foldl rep_call_run rep calls)"
proof (induction calls arbitrary: rep)
  case Nil
  then show ?case by simp
next
  case (Cons c calls)
  have "scores_in_range (rep_call_run rep c)"
    using Cons.prems
    by (cases c) (simp_all add: scores_in_range_initializeAgent scores_in_range_recordSuccess
        scores_in_range_recordFailure)
  then show ?case using Cons.IH Cons.prems(2) by simp
qed

text \<open>
  C4, as stated, fails on the code at the initial score \<open>NaN\<close>: \<open>Math.min(1, NaN)\<close> and
  then \<open>Math.max(0, NaN)\<close> are \<open>NaN\<close>, so \<open>initializeAgent\<close> stores \<open>NaN\<close>, which is not a
  score of the unit interval, and \<open>recordSuccess\<close> and \<open>recordFailure\<close> keep it.
\<close>

theorem C4_NaN_score_counterexample:
  "map_option score (initializeAgent 0 Map.empty ''a'' NaN ''a'') = Some NaN
   \<and> \<not> in_unit NaN
   \<and> map_option score (recordSuccess 1 (initializeAgent 0 Map.empty ''a'' NaN) ''a'' ''a'') = Some NaN
   \<and> map_option score (recordFailure 1 (initializeAgent 0 Map.empty ''a'' NaN) ''a'' ''a'') = Some NaN
   \<and> \<not> scores_in_range (initializeAgent 0 Map.empty ''a'' NaN)"
proof -
  have stored: "initializeAgent 0 Map.empty ''a'' NaN ''a''
      = Some \<lparr> agentId = ''a'', score = NaN, successCount = 0, failureCount = 0, lastUpdated = 0 \<rparr>"
    by (simp add: initializeAgent_def)
  have a: "map_option score (initializeAgent 0 Map.empty ''a'' NaN ''a'') = Some NaN"
    by (simp add: stored)
  have b: "map_option score (recordSuccess 1 (initializeAgent 0 Map.empty ''a'' NaN) ''a'' ''a'') = Some NaN"
    using stored by (simp add: recordSuccess_def getOrCreateRecord_def Let_def)
  have c: "map_option score (recordFailure 1 (initializeAgent 0 Map.empty ''a'' NaN) ''a'' ''a'') = Some NaN"
    using stored by (simp add: recordFailure_def getOrCreateRecord_def Let_def)
  have d: "\<not> scores_in_range (initializeAgent 0 Map.empty ''a'' NaN)"
  proof
    assume "scores_in_range (initializeAgent 0 Map.empty ''a'' NaN)"
    then have "in_unit (score \<lparr> agentId = ''a'', score = NaN, successCount = 0,
        failureCount = 0, lastUpdated = 0 \<rparr>)"
      using stored unfolding scores_in_range_def by blast
    then show False by simp
  qed
  from a b c d show ?thesis by simp
qed

text \<open>
  C4 (amended): when a record with score \<open>s\<close> is stored for the agent, \<open>recordSuccess\<close>
  stores \<open>Math.min(1, s + 0.1)\<close>, which for a real \<open>s\<close> is the real \<open>min 1 (s + 0.1)\<close>, and
  adds one to the success counter; \<open>recordFailure\<close> stores \<open>Math.max(0, s - 0.2)\<close>, for a
  real \<open>s\<close> the real \<open>max 0 (s - 0.2)\<close>, and adds one to the failure counter;
  \<open>initializeAgent\<close> leaves the existing record alone. When no record is stored,
  \<open>initializeAgent\<close> stores \<open>Math.max(0, Math.min(1, s0))\<close>, which lies in the unit
  interval for every initial score other than \<open>NaN\<close>, the numbers outside the unit
  interval and the two infinities included, and the two recording calls act on the
  default record of score 1. After every sequence of these calls on an empty tracker in
  which no \<open>initializeAgent\<close> is given \<open>NaN\<close>, each stored score lies in the unit interval.
\<close>

theorem C4_reputation_updates:
  "(rep aid = Some r \<longrightarrow>
      map_option score (recordSuccess now rep aid aid)
        = Some (js_min (Num 1) (js_add (score r) (Num 0.1)))
    \<and> map_option successCount (recordSuccess now rep aid aid) = Some (successCount r + 1)
    \<and> map_option failureCount (recordSuccess now rep aid aid) = Some (failureCount r)
    \<and> map_option score (recordFailure now rep aid aid)
        = Some (js_max (Num 0) (js_sub (score r) (Num 0.2)))
    \<and> map_option failureCount (recordFailure now rep aid aid) = Some (failureCount r + 1)
    \<and> map_option successCount (recordFailure now rep aid aid) = Some (successCount r)
    \<and> initializeAgent now rep aid initial = rep)
   \<and> (rep aid = Some r \<and> score r = Num x \<longrightarrow>
      map_option score (recordSuccess now rep aid aid) = Some (Num (min 1 (x + 0.1)))
    \<and> map_option score (recordFailure now rep aid aid) = Some (Num (max 0 (x - 0.2))))
   \<and> (rep aid = None \<longrightarrow>
      map_option score (initializeAgent now rep aid initial aid)
        = Some (js_max (Num 0) (js_min (Num 1) initial))
    \<and> js_max (Num 0) (js_min (Num 1) (Num y)) = Num (max 0 (min 1 y))
    \<and> js_max (Num 0) (js_min (Num 1) PosInf) = Num 1
    \<and> js_max (Num 0) (js_min (Num 1) NegInf) = Num 0
    \<and> recordSuccess now rep aid = recordSuccess now (initializeAgent now rep aid (Num 1)) aid
    \<and> recordFailure now rep aid = recordFailure now (initializeAgent now rep aid (Num 1)) aid)
   \<and> (rep aid = None \<and> initial \<noteq> NaN \<longrightarrow>
      in_unit (js_max (Num 0) (js_min (Num 1) initial)))
   \<and> ((\<forall>c \<in> set calls. \<not> initializes_NaN c) \<longrightarrow>
        scores_in_range (foldl rep_call_run Map.empty calls))"
proof -
  have init: "(\<forall>c \<in> set calls. \<not> initializes_NaN c) \<longrightarrow>
        scores_in_range (foldl rep_call_run Map.empty calls)"
    using scores_in_range_run [of Map.empty calls] by (simp add: scores_in_range_def)
  have present: "rep aid = Some r \<longrightarrow>
      map_option score (recordSuccess now rep aid aid)
        = Some (js_min (Num 1) (js_add (score r) (Num 0.1)))
    \<and> map_option successCount (recordSuccess now rep aid aid) = Some (successCount r + 1)
    \<and> map_option failureCount (recordSuccess now rep aid aid) = Some (failureCount r)
    \<and> map_option score (recordFailure now rep aid aid)
        = Some (js_max (Num 0) (js_sub (score r) (Num 0.2)))
    \<and> map_option failureCount (recordFailure now rep aid aid) = Some (failureCount r + 1)
    \<and> map_option successCount (recordFailure now rep aid aid) = Some (successCount r)
    \<and> initializeAgent now rep aid initial = rep"
    by (simp add: recordSuccess_def recordFailure_def getOrCreateRecord_existing
        initializeAgent_def REPUTATION_INCREMENT_SUCCESS_def REPUTATION_DECREMENT_FAILURE_def Let_def)
  have finite: "rep aid = Some r \<and> score r = Num x \<longrightarrow>
      map_option score (recordSuccess now rep aid aid) = Some (Num (min 1 (x + 0.1)))
    \<and> map_option score (recordFailure now rep aid aid) = Some (Num (max 0 (x - 0.2)))"
    by (simp add: recordSuccess_def recordFailure_def getOrCreateRecord_existing
        REPUTATION_INCREMENT_SUCCESS_def REPUTATION_DECREMENT_FAILURE_def Let_def)
  have absent: "rep aid = None \<longrightarrow>
      map_option score (initializeAgent now rep aid initial aid)
        = Some (js_max (Num 0) (js_min (Num 1) initial))
    \<and> js_max (Num 0) (js_min (Num 1) (Num y)) = Num (max 0 (min 1 y))
    \<and> js_max (Num 0) (js_min (Num 1) PosInf) = Num 1
    \<and> js_max (Num 0) (js_min (Num 1) NegInf) = Num 0
    \<and> recordSuccess now rep aid = recordSuccess now (initializeAgent now rep aid (Num 1)) aid
    \<and> recordFailure now rep aid = recordFailure now (initializeAgent now rep aid (Num 1)) aid"
    by (simp add: recordSuccess_def recordFailure_def getOrCreateRecord_def
        initializeAgentDefault_def initializeAgent_def Let_def)
  have clamp: "rep aid = None \<and> initial \<noteq> NaN \<longrightarrow>
      in_unit (js_max (Num 0) (js_min (Num 1) initial))"
    by (simp add: clamp_in_unit)
  from present finite absent clamp init show ?thesis by blast
qed

text \<open>
  The amended C4 on an agent initialised with 1.5 (stored as 1), on one initialised with
  -0.5 (stored as 0) and on one initialised with positive infinity (stored as 1).
\<close>

theorem C4_reputation_updates_witness:
  "initializeAgent 0 Map.empty ''a'' (Num 1.5) ''a''
     = Some \<lparr>agentId = ''a'', score = Num 1, successCount = 0, failureCount = 0, lastUpdated = 0\<rparr>
   \<and> map_option score (recordSuccess 7 (initializeAgent 0 Map.empty ''a'' (Num 1.5)) ''a'' ''a'')
       = Some (Num 1)
   \<and> map_option successCount (recordSuccess 7 (initializeAgent 0 Map.empty ''a'' (Num 1.5)) ''a'' ''a'')
       = Some 1
   \<and> map_option score (recordFailure 7 (initializeAgent 0 Map.empty ''a'' (Num 1.5)) ''a'' ''a'')
       = Some (Num 0.8)
   \<and> map_option failureCount (recordFailure 7 (initializeAgent 0 Map.empty ''a'' (Num 1.5)) ''a'' ''a'')
       = Some 1
   \<and> (Map.empty :: ReputationTracker) ''a'' = None
   \<and> Num (- 0.5) \<noteq> NaN
   \<and> map_option score (initializeAgent 0 Map.empty ''a'' (Num (- 0.5)) ''a'') = Some (Num 0)
   \<and> in_unit (js_max (Num 0) (js_min (Num 1) (Num (- 0.5))))
   \<and> PosInf \<noteq> NaN
   \<and> map_option score (initializeAgent 0 Map.empty ''a'' PosInf ''a'') = Some (Num 1)
   \<and> list_all (\<lambda>c. \<not> initializes_NaN c)
        [InitializeAgent 0 ''a'' (Num 1.5), RecordFailure 1 ''a'', RecordSuccess 2 ''b'']
   \<and> scores_in_range (foldl rep_call_run Map.empty
         [InitializeAgent 0 ''a'' (Num 1.5), RecordFailure 1 ''a'', RecordSuccess 2 ''b''])"
  using C4_reputation_updates [where rep="initializeAgent 0 Map.empty ''a'' (Num 1.5)" and aid="''a''"
          and r="\<lparr>agentId = ''a'', score = Num 1, successCount = 0, failureCount = 0, lastUpdated = 0\<rparr>"
          and x=1 and now=7 and initial="Num 0" and y=0
          and calls="[InitializeAgent 0 ''a'' (Num 1.5), RecordFailure 1 ''a'', RecordSuccess 2 ''b'']"]
        C4_reputation_updates [where rep="Map.empty" and aid="''a''" and now=0
          and initial="Num (- 0.5)" and y="- 0.5" and calls="[]"]
        C4_reputation_updates [where rep="Map.empty" and aid="''a''" and now=0
          and initial="PosInf" and y=0 and calls="[]"]
  by (simp add: initializeAgent_def)

section \<open>State store: round trips and versions\<close>

lemma getVersion_setState_same: "getVersion (setState now s k v) k = getVersion s k + 1"
  by (simp add: setState_def getVersion_def notifyListeners_def Let_def)

lemma getVersion_setState_other: "k' \<noteq> k \<Longrightarrow> getVersion (setState now s k' v) k = getVersion s k"
  by (simp add: setState_def getVersion_def notifyListeners_def Let_def)

lemma getVersion_setState_mono: "getVersion s k \<le> getVersion (setState now s k' v) k"
  by (cases "k' = k") (simp_all add: getVersion_setState_same getVersion_setState_other)

lemma getVersion_deleteState_other: "k' \<noteq> k \<Longrightarrow> getVersion (deleteState now s k') k = getVersion s k"
  by (simp add: deleteState_def getVersion_def notifyListeners_def Let_def)

lemma getVersion_call_mono:
  "\<not> erases_key k c \<Longrightarrow> getVersion s k \<le> getVersion (store_call_run s c) k"
  by (cases c)
     (simp_all add: getVersion_setState_mono getVersion_deleteState_other applyRemoteChange_def)

lemma getVersion_calls_mono:
  "\<forall>c \<in> set calls. \<not> erases_key k c \<Longrightarrow> getVersion s k \<le> getVersion (foldl store_call_run s calls) k"
proof (induction calls arbitrary: s)
  case Nil
  then show ?case by simp
next
  case (Cons c calls)
  have "getVersion s k \<le> getVersion (store_call_run s c) k"
    using Cons.prems by (simp add: getVersion_call_mono)
  moreover have "getVersion (store_call_run s c) k
                   \<le> getVersion (foldl store_call_run (store_call_run s c) calls) k"
    using Cons.IH Cons.prems by simp
  ultimately show ?case by simp
qed

text \<open>
  C5, as stated, fails on the code: two \<open>setState\<close> calls on a key leave version 2; after
  a \<open>deleteState\<close> of the key, the next \<open>setState\<close> stores version 1, which is not larger
  than the version of the previous \<open>setState\<close>.
\<close>

theorem C5_version_restart_counterexample:
  "getVersion (setState 2 (setState 1 (newStateStore ''n1'') ''k'' (JStr ''a'')) ''k'' (JStr ''b'')) ''k'' = 2
   \<and> getVersion (setState 4 (deleteState 3
        (setState 2 (setState 1 (newStateStore ''n1'') ''k'' (JStr ''a'')) ''k'' (JStr ''b'')) ''k'')
        ''k'' (JStr ''c'')) ''k'' = 1
   \<and> \<not> getVersion (setState 2 (setState 1 (newStateStore ''n1'') ''k'' (JStr ''a'')) ''k'' (JStr ''b'')) ''k''
       < getVersion (setState 4 (deleteState 3
           (setState 2 (setState 1 (newStateStore ''n1'') ''k'' (JStr ''a'')) ''k'' (JStr ''b'')) ''k'')
           ''k'' (JStr ''c'')) ''k''"
  by (simp add: setState_def deleteState_def getState_def getVersion_def notifyListeners_def
      newStateStore_def Let_def)

text \<open>
  C5 (amended): \<open>getState\<close> right after \<open>setState k v\<close> returns \<open>v\<close>; \<open>getState\<close> right
  after \<open>deleteState k\<close> returns \<open>undefined\<close>; each \<open>setState\<close> to \<open>k\<close> stores the version
  held for \<open>k\<close> just before the call (0 when none is held) plus one, so a later \<open>setState\<close>
  to \<open>k\<close> stores a strictly larger version than an earlier one whenever no call in between
  erases \<open>k\<close> (a \<open>deleteState\<close> of \<open>k\<close> or a \<open>clear\<close>).
\<close>

theorem C5_roundtrip_and_version:
  "getState (setState now s k v) k = v
   \<and> getState (deleteState now s k) k = JUndefined
   \<and> getVersion (setState now s k v) k = getVersion s k + 1
   \<and> ((\<forall>c \<in> set calls. \<not> erases_key k c) \<longrightarrow>
        getVersion (setState now s k v) k
          < getVersion (setState now' (foldl store_call_run (setState now s k v) calls) k v') k)"
proof -
  have a: "getState (setState now s k v) k = v"
    by (simp add: setState_def getState_def notifyListeners_def Let_def)
  have b: "getState (deleteState now s k) k = JUndefined"
    by (simp add: deleteState_def getState_def notifyListeners_def Let_def)
  have c: "getVersion (setState now s k v) k = getVersion s k + 1"
    by (rule getVersion_setState_same)
  have d: "(\<forall>c \<in> set calls. \<not> erases_key k c) \<longrightarrow>
        getVersion (setState now s k v) k
          < getVersion (setState now' (foldl store_call_run (setState now s k v) calls) k v') k"
  proof
    assume h: "\<forall>c \<in> set calls. \<not> erases_key k c"
    have "getVersion (setState now s k v) k
            \<le> getVersion (foldl store_call_run (setState now s k v) calls) k"
      using h by (rule getVersion_calls_mono)
    then show "getVersion (setState now s k v) k
          < getVersion (setState now' (foldl store_call_run (setState now s k v) calls) k v') k"
      by (simp add: getVersion_setState_same)
  qed
  from a b c d show ?thesis by blast
qed

text \<open>
  The amended C5 at a concrete store, with a write and a delete of another key in between.
\<close>

theorem C5_roundtrip_and_version_witness:
  "list_all (\<lambda>c. \<not> erases_key ''k'' c) [SetState 2 ''j'' JNull, DeleteState 3 ''j'']
   \<and> getState (setState 1 (newStateStore ''n1'') ''k'' (JStr ''a'')) ''k'' = JStr ''a''
   \<and> getVersion (setState 1 (newStateStore ''n1'') ''k'' (JStr ''a'')) ''k'' = 1
   \<and> getVersion (setState 1 (newStateStore ''n1'') ''k'' (JStr ''a'')) ''k''
       < getVersion (setState 4 (foldl store_call_run (setState 1 (newStateStore ''n1'') ''k'' (JStr ''a''))
            [SetState 2 ''j'' JNull, DeleteState 3 ''j'']) ''k'' (JStr ''b'')) ''k''"
  using C5_roundtrip_and_version [where now=1 and s="newStateStore ''n1''" and k="''k''"
          and v="JStr ''a''" and calls="[SetState 2 ''j'' JNull, DeleteState 3 ''j'']"
          and now'=4 and v'="JStr ''b''"]
  by (simp add: getVersion_def newStateStore_def)

text \<open>
  C10, as stated, fails on the code in two places. Where the key was written once, the
  version held before the delete is 1 and the version stored by the \<open>setState\<close> after the
  delete is 1 again, equal and not strictly smaller. Where the key holds \<open>undefined\<close>,
  \<open>deleteState\<close> returns early and keeps the version counter, so the \<open>setState\<close> after it
  stores version 2, not 1.
\<close>

theorem C10_delete_restart_counterexample:
  "getVersion (setState 1 (newStateStore ''n1'') ''k'' (JStr ''a'')) ''k'' = 1
   \<and> getVersion (setState 3 (deleteState 2 (setState 1 (newStateStore ''n1'') ''k'' (JStr ''a'')) ''k'')
        ''k'' (JStr ''b'')) ''k'' = 1
   \<and> \<not> getVersion (setState 3 (deleteState 2 (setState 1 (newStateStore ''n1'') ''k'' (JStr ''a'')) ''k'')
          ''k'' (JStr ''b'')) ''k''
       < getVersion (setState 1 (newStateStore ''n1'') ''k'' (JStr ''a'')) ''k''
   \<and> version (deleteState 2 (setState 1 (newStateStore ''n1'') ''u'' JUndefined) ''u'') ''u'' = Some 1
   \<and> getVersion (setState 3 (deleteState 2 (setState 1 (newStateStore ''n1'') ''u'' JUndefined) ''u'')
        ''u'' (JStr ''b'')) ''u'' = 2"
  by (simp add: setState_def deleteState_def getState_def getVersion_def notifyListeners_def
      newStateStore_def Let_def)

text \<open>
  C10 (amended): when the value stored for \<open>k\<close> is not \<open>undefined\<close>, \<open>deleteState k\<close>
  removes the value and the version counter of \<open>k\<close>, and a following \<open>setState\<close> to \<open>k\<close>
  stores version 1, which is strictly smaller than the version held before the delete
  whenever that version was at least 2; when the value read for \<open>k\<close> is \<open>undefined\<close>,
  \<open>deleteState k\<close> changes nothing. Over call sequences in which nothing erases \<open>k\<close>
  the version of \<open>k\<close> never decreases.
\<close>

theorem C10_delete_erases_version:
  "(getState s k \<noteq> JUndefined \<longrightarrow>
      state (deleteState now s k) k = None
    \<and> version (deleteState now s k) k = None
    \<and> getVersion (setState now' (deleteState now s k) k v) k = 1
    \<and> (2 \<le> getVersion s k \<longrightarrow>
         getVersion (setState now' (deleteState now s k) k v) k < getVersion s k))
   \<and> (getState s k = JUndefined \<longrightarrow> deleteState now s k = s)
   \<and> ((\<forall>c \<in> set calls. \<not> erases_key k c) \<longrightarrow>
        getVersion s k \<le> getVersion (foldl store_call_run s calls) k)"
proof -
  have a: "getState s k \<noteq> JUndefined \<longrightarrow>
      state (deleteState now s k) k = None
    \<and> version (deleteState now s k) k = None
    \<and> getVersion (setState now' (deleteState now s k) k v) k = 1
    \<and> (2 \<le> getVersion s k \<longrightarrow>
         getVersion (setState now' (deleteState now s k) k v) k < getVersion s k)"
    by (simp add: getVersion_setState_same)
       (simp add: deleteState_def getVersion_def notifyListeners_def Let_def)
  have b: "getState s k = JUndefined \<longrightarrow> deleteState now s k = s"
    by (simp add: deleteState_def Let_def)
  have c: "(\<forall>c \<in> set calls. \<not> erases_key k c) \<longrightarrow>
        getVersion s k \<le> getVersion (foldl store_call_run s calls) k"
    using getVersion_calls_mono by blast
  from a b c show ?thesis by blast
qed

text \<open>
  The amended C10 at a key written twice and at a key never written.
\<close>

theorem C10_delete_erases_version_witness:
  "getState (setState 2 (setState 1 (newStateStore ''n1'') ''k'' (JStr ''a'')) ''k'' (JStr ''b'')) ''k''
     \<noteq> JUndefined
   \<and> 2 \<le> getVersion (setState 2 (setState 1 (newStateStore ''n1'') ''k'' (JStr ''a'')) ''k'' (JStr ''b'')) ''k''
   \<and> getVersion (setState 4 (deleteState 3
        (setState 2 (setState 1 (newStateStore ''n1'') ''k'' (JStr ''a'')) ''k'' (JStr ''b'')) ''k'')
        ''k'' (JStr ''c'')) ''k'' = 1
   \<and> getState (newStateStore ''n1'') ''k'' = JUndefined
   \<and> deleteState 5 (newStateStore ''n1'') ''k'' = newStateStore ''n1''
   \<and> list_all (\<lambda>c. \<not> erases_key ''k'' c) [SetState 6 ''k'' JNull]
   \<and> getVersion (newStateStore ''n1'') ''k''
       \<le> getVersion (foldl store_call_run (newStateStore ''n1'') [SetState 6 ''k'' JNull]) ''k''"
  using C10_delete_erases_version [where s="setState 2 (setState 1 (newStateStore ''n1'') ''k'' (JStr ''a'')) ''k'' (JStr ''b'')"
          and k="''k''" and now=3 and now'=4 and v="JStr ''c''" and calls="[]"]
        C10_delete_erases_version [where s="newStateStore ''n1''" and k="''k''" and now=5
          and calls="[SetState 6 ''k'' JNull]"]
  by (simp add: setState_def getState_def getVersion_def notifyListeners_def
      newStateStore_def Let_def)

text \<open>
  C6: \<open>applyRemoteChange\<close> returns true exactly when the change's timestamp is later than
  the current time minus 60000 ms, that is, the change is less than 60 seconds old (a
  timestamp in the future counts as fresh, one exactly 60 seconds old does not). When it
  returns true the store is the one \<open>setState\<close> produces for the change's key and new
  value, so \<open>getState\<close> returns the new value; when it returns false the store, and with
  it the value and version of the key, is unchanged.
\<close>

theorem C6_applyRemoteChange_freshness:
  "(fst (applyRemoteChange now s c) = True) = (now - 60000 < timestamp c)
   \<and> (now - 60000 < timestamp c \<longrightarrow>
        snd (applyRemoteChange now s c) = setState now s (key c) (newValue c)
      \<and> getState (snd (applyRemoteChange now s c)) (key c) = newValue c
      \<and> getVersion (snd (applyRemoteChange now s c)) (key c) = getVersion s (key c) + 1)
   \<and> (\<not> now - 60000 < timestamp c \<longrightarrow>
        fst (applyRemoteChange now s c) = False
      \<and> snd (applyRemoteChange now s c) = s
      \<and> getState (snd (applyRemoteChange now s c)) (key c) = getState s (key c)
      \<and> getVersion (snd (applyRemoteChange now s c)) (key c) = getVersion s (key c))"
  by (simp add: applyRemoteChange_def getVersion_setState_same)
     (simp add: setState_def getState_def notifyListeners_def Let_def)

text \<open>
  C6 at a change 59.999 seconds old (accepted) and one exactly 60 seconds old (rejected).
\<close>

theorem C6_applyRemoteChange_freshness_witness:
  "(100000 - 60000 < timestamp \<lparr>key = ''k'', oldValue = JUndefined, newValue = JStr ''r'',
        timestamp = 40001, source = ''n2''\<rparr>)
   \<and> fst (applyRemoteChange 100000 (newStateStore ''n1'')
        \<lparr>key = ''k'', oldValue = JUndefined, newValue = JStr ''r'', timestamp = 40001, source = ''n2''\<rparr>)
   \<and> getState (snd (applyRemoteChange 100000 (newStateStore ''n1'')
        \<lparr>key = ''k'', oldValue = JUndefined, newValue = JStr ''r'', timestamp = 40001, source = ''n2''\<rparr>))
        ''k'' = JStr ''r''
   \<and> \<not> (100000 - 60000 < timestamp \<lparr>key = ''k'', oldValue = JUndefined, newValue = JStr ''r'',
        timestamp = 40000, source = ''n2''\<rparr>)
   \<and> \<not> fst (applyRemoteChange 100000 (newStateStore ''n1'')
        \<lparr>key = ''k'', oldValue = JUndefined, newValue = JStr ''r'', timestamp = 40000, source = ''n2''\<rparr>)
   \<and> snd (applyRemoteChange 100000 (newStateStore ''n1'')
        \<lparr>key = ''k'', oldValue = JUndefined, newValue = JStr ''r'', timestamp = 40000, source = ''n2''\<rparr>)
       = newStateStore ''n1''"
  using C6_applyRemoteChange_freshness [where now=100000 and s="newStateStore ''n1''"
          and c="\<lparr>key = ''k'', oldValue = JUndefined, newValue = JStr ''r'', timestamp = 40001, source = ''n2''\<rparr>"]
        C6_applyRemoteChange_freshness [where now=100000 and s="newStateStore ''n1''"
          and c="\<lparr>key = ''k'', oldValue = JUndefined, newValue = JStr ''r'', timestamp = 40000, source = ''n2''\<rparr>"]
  by (simp add: setState_def getState_def notifyListeners_def Let_def)

section \<open>Circuit breaker: open, half-open, closed\<close>

lemma breakerState_fireDue:
  "breakerState (fireDue now ts ro) aid = breakerState ro aid
   \<or> breakerState (fireDue now ts ro) aid = HalfOpen"
proof (induction ts arbitrary: ro)
  case Nil
  then show ?case by simp
next
  case (Cons t ts)
  obtain due b where t: "t = (due, b)" by (cases t)
  show ?case
  proof (cases "due \<le> now")
    case False
    then show ?thesis using Cons.IH [of ro] t by simp
  next
    case True
    have "breakerState (resetCallback ro b) aid = breakerState ro aid
          \<or> breakerState (resetCallback ro b) aid = HalfOpen"
      by (simp add: resetCallback_def breakerState_def)
    then show ?thesis using Cons.IH [of "resetCallback ro b"] t True by auto
  qed
qed

lemma breakerState_runTimers:
  "breakerState (runTimers now ro) aid = breakerState (fireDue now (pendingResets ro) ro) aid"
  by (simp add: runTimers_def breakerState_def)

lemma breaker_step_from_open:
  assumes "breakerState ro aid = Open"
  shows "breakerState (breaker_step ro e) aid = Open \<or> breakerState (breaker_step ro e) aid = HalfOpen"
proof (cases e)
  case (AgentFailure now b)
  then show ?thesis using assms
    by (auto simp add: recordAgentFailure_def breakerState_def Let_def split: option.splits)
next
  case (AgentSuccess b)
  then show ?thesis using assms
    by (auto simp add: recordAgentSuccess_def breakerState_def Let_def split: option.splits)
next
  case (TimersRun now)
  then show ?thesis using assms breakerState_fireDue [of now "pendingResets ro" ro aid]
    by (auto simp add: breakerState_runTimers)
qed

lemma closed_only_via_half_open:
  "breakerState ro aid = Open \<Longrightarrow> breakerState (foldl breaker_step ro es) aid = Closed
   \<Longrightarrow> \<exists>n<length es. breakerState (foldl breaker_step ro (take n es)) aid = HalfOpen"
proof (induction es arbitrary: ro)
  case Nil
  then show ?case by simp
next
  case (Cons e es)
  consider (stay) "breakerState (breaker_step ro e) aid = Open"
    | (half) "breakerState (breaker_step ro e) aid = HalfOpen"
    using breaker_step_from_open [OF Cons.prems(1)] by blast
  then show ?case
  proof cases
    case stay
    from Cons.IH [OF stay] Cons.prems(2)
    obtain n where n: "n < length es"
      "breakerState (foldl breaker_step (breaker_step ro e) (take n es)) aid = HalfOpen"
      by auto
    then have "Suc n < length (e # es)
               \<and> breakerState (foldl breaker_step ro (take (Suc n) (e # es))) aid = HalfOpen"
      by simp
    then show ?thesis by blast
  next
    case half
    have "es \<noteq> []" using half Cons.prems(2) by auto
    then have "Suc 0 < length (e # es)
               \<and> breakerState (foldl breaker_step ro (take (Suc 0) (e # es))) aid = HalfOpen"
      using half by simp
    then show ?thesis by blast
  qed
qed

lemma five_failures:
  "foldl breaker_step newResilientOrchestrator
     [AgentFailure t1 aid, AgentFailure t2 aid, AgentFailure t3 aid, AgentFailure t4 aid,
      AgentFailure t5 aid]
   = \<lparr> circuitBreaker = [aid \<mapsto> Open], breakerFailureCount = [aid \<mapsto> 5],
       pendingResets = [(t5 + 60000, aid)] \<rparr>"
  by (simp add: recordAgentFailure_def newResilientOrchestrator_def failureThreshold_def
      resetTimeout_def Let_def eval_nat_numeral)

text \<open>
  C3: for every agent id, from the initial orchestrator (no breaker entry, which reads as
  closed, and no failure count): after five \<open>recordAgentFailure\<close> calls the breaker is
  open; once the clock has reached the fifth failure's time plus the reset timeout and the
  scheduled callback has run, it is half-open, and one \<open>recordAgentSuccess\<close> then closes
  it, while before that time it stays open even across a success. From any state a
  success recorded in half-open closes the breaker, and along any sequence of failures,
  successes and timer runs that leads from open to closed, some intermediate state is
  half-open.
\<close>

theorem C3_breaker_cycle:
  "breakerState newResilientOrchestrator aid = Closed
   \<and> breakerFailureCount newResilientOrchestrator aid = None
   \<and> breakerState (foldl breaker_step newResilientOrchestrator
        [AgentFailure t1 aid, AgentFailure t2 aid, AgentFailure t3 aid, AgentFailure t4 aid,
         AgentFailure t5 aid]) aid = Open
   \<and> (t5 + resetTimeout \<le> T \<longrightarrow>
        breakerState (foldl breaker_step newResilientOrchestrator
          [AgentFailure t1 aid, AgentFailure t2 aid, AgentFailure t3 aid, AgentFailure t4 aid,
           AgentFailure t5 aid, TimersRun T]) aid = HalfOpen
      \<and> breakerState (foldl breaker_step newResilientOrchestrator
          [AgentFailure t1 aid, AgentFailure t2 aid, AgentFailure t3 aid, AgentFailure t4 aid,
           AgentFailure t5 aid, TimersRun T, AgentSuccess aid]) aid = Closed)
   \<and> (T < t5 + resetTimeout \<longrightarrow>
        breakerState (foldl breaker_step newResilientOrchestrator
          [AgentFailure t1 aid, AgentFailure t2 aid, AgentFailure t3 aid, AgentFailure t4 aid,
           AgentFailure t5 aid, TimersRun T, AgentSuccess aid]) aid = Open)
   \<and> (breakerState ro aid = HalfOpen \<longrightarrow> breakerState (recordAgentSuccess ro aid) aid = Closed)
   \<and> (breakerState ro aid = Open \<and> breakerState (foldl breaker_step ro es) aid = Closed \<longrightarrow>
        (\<exists>n<length es. breakerState (foldl breaker_step ro (take n es)) aid = HalfOpen))"
proof -
  have a: "breakerState newResilientOrchestrator aid = Closed
           \<and> breakerFailureCount newResilientOrchestrator aid = None"
    by (simp add: newResilientOrchestrator_def breakerState_def)
  have b: "breakerState (foldl breaker_step newResilientOrchestrator
        [AgentFailure t1 aid, AgentFailure t2 aid, AgentFailure t3 aid, AgentFailure t4 aid,
         AgentFailure t5 aid]) aid = Open"
    by (simp only: five_failures) (simp add: breakerState_def)
  have split6: "foldl breaker_step newResilientOrchestrator
          [AgentFailure t1 aid, AgentFailure t2 aid, AgentFailure t3 aid, AgentFailure t4 aid,
           AgentFailure t5 aid, TimersRun T]
        = runTimers T (foldl breaker_step newResilientOrchestrator
          [AgentFailure t1 aid, AgentFailure t2 aid, AgentFailure t3 aid, AgentFailure t4 aid,
           AgentFailure t5 aid])"
    by simp
  have split7: "foldl breaker_step newResilientOrchestrator
          [AgentFailure t1 aid, AgentFailure t2 aid, AgentFailure t3 aid, AgentFailure t4 aid,
           AgentFailure t5 aid, TimersRun T, AgentSuccess aid]
        = recordAgentSuccess (runTimers T (foldl breaker_step newResilientOrchestrator
          [AgentFailure t1 aid, AgentFailure t2 aid, AgentFailure t3 aid, AgentFailure t4 aid,
           AgentFailure t5 aid])) aid"
    by simp
  have c: "t5 + resetTimeout \<le> T \<longrightarrow>
        breakerState (foldl breaker_step newResilientOrchestrator
          [AgentFailure t1 aid, AgentFailure t2 aid, AgentFailure t3 aid, AgentFailure t4 aid,
           AgentFailure t5 aid, TimersRun T]) aid = HalfOpen
      \<and> breakerState (foldl breaker_step newResilientOrchestrator
          [AgentFailure t1 aid, AgentFailure t2 aid, AgentFailure t3 aid, AgentFailure t4 aid,
           AgentFailure t5 aid, TimersRun T, AgentSuccess aid]) aid = Closed"
    by (simp only: split6 split7 five_failures)
       (simp add: runTimers_def resetCallback_def recordAgentSuccess_def breakerState_def
          resetTimeout_def Let_def)
  have d: "T < t5 + resetTimeout \<longrightarrow>
        breakerState (foldl breaker_step newResilientOrchestrator
          [AgentFailure t1 aid, AgentFailure t2 aid, AgentFailure t3 aid, AgentFailure t4 aid,
           AgentFailure t5 aid, TimersRun T, AgentSuccess aid]) aid = Open"
    by (simp only: split7 five_failures)
       (simp add: runTimers_def resetCallback_def recordAgentSuccess_def breakerState_def
          resetTimeout_def Let_def)
  have e: "breakerState ro aid = HalfOpen \<longrightarrow> breakerState (recordAgentSuccess ro aid) aid = Closed"
    by (auto simp add: recordAgentSuccess_def breakerState_def Let_def split: option.splits)
  have f: "breakerState ro aid = Open \<and> breakerState (foldl breaker_step ro es) aid = Closed \<longrightarrow>
        (\<exists>n<length es. breakerState (foldl breaker_step ro (take n es)) aid = HalfOpen)"
    using closed_only_via_half_open by blast
  from a b c d e f show ?thesis by blast
qed


text \<open>
  C3 at agent \<open>a\<close> with failures at times 1 to 5: the timer is due at 60005.
\<close>

theorem C3_breaker_cycle_witness:
  "5 + resetTimeout \<le> 60005
   \<and> breakerState (foldl breaker_step newResilientOrchestrator
        [AgentFailure 1 ''a'', AgentFailure 2 ''a'', AgentFailure 3 ''a'', AgentFailure 4 ''a'',
         AgentFailure 5 ''a'', TimersRun 60005]) ''a'' = HalfOpen
   \<and> breakerState (foldl breaker_step newResilientOrchestrator
        [AgentFailure 1 ''a'', AgentFailure 2 ''a'', AgentFailure 3 ''a'', AgentFailure 4 ''a'',
         AgentFailure 5 ''a'', TimersRun 60005, AgentSuccess ''a'']) ''a'' = Closed
   \<and> 60004 < 5 + resetTimeout
   \<and> breakerState (foldl breaker_step newResilientOrchestrator
        [AgentFailure 1 ''a'', AgentFailure 2 ''a'', AgentFailure 3 ''a'', AgentFailure 4 ''a'',
         AgentFailure 5 ''a'', TimersRun 60004, AgentSuccess ''a'']) ''a'' = Open
   \<and> breakerState \<lparr>circuitBreaker = [''a'' \<mapsto> HalfOpen], breakerFailureCount = [''a'' \<mapsto> 0],
        pendingResets = []\<rparr> ''a'' = HalfOpen
   \<and> breakerState (recordAgentSuccess \<lparr>circuitBreaker = [''a'' \<mapsto> HalfOpen],
        breakerFailureCount = [''a'' \<mapsto> 0], pendingResets = []\<rparr> ''a'') ''a'' = Closed
   \<and> breakerState \<lparr>circuitBreaker = [''a'' \<mapsto> Open], breakerFailureCount = [''a'' \<mapsto> 5],
        pendingResets = [(60005, ''a'')]\<rparr> ''a'' = Open
   \<and> breakerState (foldl breaker_step \<lparr>circuitBreaker = [''a'' \<mapsto> Open],
        breakerFailureCount = [''a'' \<mapsto> 5], pendingResets = [(60005, ''a'')]\<rparr>
        [TimersRun 60005, AgentSuccess ''a'']) ''a'' = Closed
   \<and> (\<exists>n<length [TimersRun 60005, AgentSuccess ''a''].
        breakerState (foldl breaker_step \<lparr>circuitBreaker = [''a'' \<mapsto> Open],
          breakerFailureCount = [''a'' \<mapsto> 5], pendingResets = [(60005, ''a'')]\<rparr>
          (take n [TimersRun 60005, AgentSuccess ''a''])) ''a'' = HalfOpen)"
proof -
  have open5: "breakerState \<lparr>circuitBreaker = [''a'' \<mapsto> Open], breakerFailureCount = [''a'' \<mapsto> 5],
        pendingResets = [(60005, ''a'')]\<rparr> ''a'' = Open"
    by (simp add: breakerState_def)
  have closed5: "breakerState (foldl breaker_step \<lparr>circuitBreaker = [''a'' \<mapsto> Open],
        breakerFailureCount = [''a'' \<mapsto> 5], pendingResets = [(60005, ''a'')]\<rparr>
        [TimersRun 60005, AgentSuccess ''a'']) ''a'' = Closed"
    by (simp add: breakerState_def runTimers_def resetCallback_def recordAgentSuccess_def Let_def)
  have half: "breakerState \<lparr>circuitBreaker = [''a'' \<mapsto> HalfOpen], breakerFailureCount = [''a'' \<mapsto> 0],
        pendingResets = []\<rparr> ''a'' = HalfOpen"
    by (simp add: breakerState_def)
  have due: "5 + resetTimeout \<le> 60005" and early: "60004 < 5 + resetTimeout"
    by (simp_all add: resetTimeout_def)
  note fresh = C3_breaker_cycle [where aid="''a''" and ?t1.0=1 and ?t2.0=2 and ?t3.0=3 and ?t4.0=4
      and ?t5.0=5 and T=60005
      and ro="\<lparr>circuitBreaker = [''a'' \<mapsto> HalfOpen], breakerFailureCount = [''a'' \<mapsto> 0],
        pendingResets = []\<rparr>" and es="[]"]
  note stale = C3_breaker_cycle [where aid="''a''" and ?t1.0=1 and ?t2.0=2 and ?t3.0=3 and ?t4.0=4
      and ?t5.0=5 and T=60004
      and ro="\<lparr>circuitBreaker = [''a'' \<mapsto> Open], breakerFailureCount = [''a'' \<mapsto> 5],
        pendingResets = [(60005, ''a'')]\<rparr>" and es="[TimersRun 60005, AgentSuccess ''a'']"]
  from fresh stale open5 closed5 half due early show ?thesis by blast
qed

section \<open>Task routing: candidates and the selected agent\<close>

lemma set_findCandidateAgents:
  "set (findCandidateAgents reg task) = {a \<in> set (getAllAgents reg). eligible task a}"
  by (auto simp add: findCandidateAgents_def eligible_def Let_def filter_empty_conv)

lemma findBestAgent_None:
  "(findBestAgent now reg task = None) = (findCandidateAgents reg task = [])"
proof (cases "findCandidateAgents reg task")
  case Nil
  then show ?thesis by (simp add: findBestAgent_def)
next
  case (Cons a as)
  have "sort_key (\<lambda>c. - snd c) (map (\<lambda>agent. (agent, scoreAgent now agent task)) (a # as)) \<noteq> []"
    by (metis length_sort length_map list.size(3) nat.distinct(1) length_Cons)
  then show ?thesis using Cons
    by (auto simp add: findBestAgent_def Let_def split: list.splits)
qed

lemma findBestAgent_Some_candidate:
  assumes "findBestAgent now reg task = Some d"
  shows "\<exists>a \<in> set (findCandidateAgents reg task). agent_id a = decision_agentId d"
proof -
  let ?scored = "map (\<lambda>agent. (agent, scoreAgent now agent task)) (findCandidateAgents reg task)"
  from assms obtain best others where
    s: "sort_key (\<lambda>c. - snd c) ?scored = best # others" and
    d: "decision_agentId d = agent_id (fst best)"
    by (auto simp add: findBestAgent_def Let_def split: if_splits list.splits)
  have "best \<in> set (sort_key (\<lambda>c. - snd c) ?scored)" using s by simp
  then have "best \<in> set ?scored" by simp
  then have "fst best \<in> set (findCandidateAgents reg task)" by auto
  then show ?thesis using d by auto
qed

text \<open>
  C8: every decision \<open>findBestAgent\<close> returns names an agent of the registry that is online,
  has a reputation strictly above 0.3 and passes the task's type and capability filters;
  \<open>findBestAgent\<close> returns nothing when no agent of the registry passes the filters, and
  only then.
\<close>

theorem C8_only_eligible_agents:
  "(findBestAgent now reg task = Some d \<longrightarrow>
      (\<exists>a \<in> set (getAllAgents reg). agent_id a = decision_agentId d
          \<and> agent_status a = Online \<and> reputationScore a > 0.3 \<and> eligible task a))
   \<and> ((\<forall>a \<in> set (getAllAgents reg). \<not> eligible task a) \<longrightarrow> findBestAgent now reg task = None)
   \<and> (findBestAgent now reg task = None \<longrightarrow> (\<forall>a \<in> set (getAllAgents reg). \<not> eligible task a))"
proof -
  have a: "findBestAgent now reg task = Some d \<longrightarrow>
      (\<exists>a \<in> set (getAllAgents reg). agent_id a = decision_agentId d
          \<and> agent_status a = Online \<and> reputationScore a > 0.3 \<and> eligible task a)"
  proof
    assume "findBestAgent now reg task = Some d"
    then obtain a where "a \<in> set (findCandidateAgents reg task)" "agent_id a = decision_agentId d"
      using findBestAgent_Some_candidate by blast
    then have "a \<in> set (getAllAgents reg) \<and> agent_id a = decision_agentId d \<and> eligible task a"
      by (simp add: set_findCandidateAgents)
    then show "\<exists>a \<in> set (getAllAgents reg). agent_id a = decision_agentId d
          \<and> agent_status a = Online \<and> reputationScore a > 0.3 \<and> eligible task a"
      by (auto simp add: eligible_def)
  qed
  have none: "(findBestAgent now reg task = None)
                = ({a \<in> set (getAllAgents reg). eligible task a} = {})"
    by (simp add: findBestAgent_None set_findCandidateAgents [symmetric])
  from a none show ?thesis by blast
qed

text \<open>
  C8 at a registry with one online agent of reputation 0.9, and at a registry with an
  offline agent and an online agent of reputation 0.2.
\<close>

theorem C8_only_eligible_agents_witness:
  "findBestAgent 0 (register [] (testAgent ''agent-1'' 0.9 Online 0)) testTask
     = Some \<lparr>taskId = ''task-1'', decision_agentId = ''agent-1'', confidence = 1,
             reason = ScoreReason 1\<rparr>
   \<and> (\<exists>a \<in> set (getAllAgents (register [] (testAgent ''agent-1'' 0.9 Online 0))).
        agent_id a = ''agent-1'' \<and> agent_status a = Online \<and> reputationScore a > 0.3)
   \<and> list_all (\<lambda>a. \<not> eligible testTask a)
        (getAllAgents (register (register [] (testAgent ''agent-1'' 0.9 Offline 0))
                                  (testAgent ''agent-2'' 0.2 Online 0)))
   \<and> findBestAgent 0 (register (register [] (testAgent ''agent-1'' 0.9 Offline 0))
                                  (testAgent ''agent-2'' 0.2 Online 0)) testTask = None"
proof -
  have some: "findBestAgent 0 (register [] (testAgent ''agent-1'' 0.9 Online 0)) testTask
     = Some \<lparr>taskId = ''task-1'', decision_agentId = ''agent-1'', confidence = 1,
             reason = ScoreReason 1\<rparr>"
    by (simp add: findBestAgent_def findCandidateAgents_def getAllAgents_def register_def
        scoreAgent_def getMeta_def testAgent_def testTask_def Let_def)
  have none: "\<forall>a \<in> set (getAllAgents (register (register [] (testAgent ''agent-1'' 0.9 Offline 0))
                                  (testAgent ''agent-2'' 0.2 Online 0))).
        \<not> eligible testTask a"
    by (simp add: getAllAgents_def register_def testAgent_def eligible_def)
  from C8_only_eligible_agents [where now=0 and reg="register [] (testAgent ''agent-1'' 0.9 Online 0)"
      and task=testTask
      and d="\<lparr>taskId = ''task-1'', decision_agentId = ''agent-1'', confidence = 1,
             reason = ScoreReason 1\<rparr>"] some
  have first: "\<exists>a \<in> set (getAllAgents (register [] (testAgent ''agent-1'' 0.9 Online 0))).
        agent_id a = ''agent-1'' \<and> agent_status a = Online \<and> reputationScore a > 0.3"
    by auto
  from C8_only_eligible_agents [where now=0
      and reg="register (register [] (testAgent ''agent-1'' 0.9 Offline 0))
                 (testAgent ''agent-2'' 0.2 Online 0)"
      and task=testTask] none
  have second: "findBestAgent 0 (register (register [] (testAgent ''agent-1'' 0.9 Offline 0))
                                  (testAgent ''agent-2'' 0.2 Online 0)) testTask = None"
    by blast
  from some first none second show ?thesis by (simp add: list_all_iff)
qed

lemma scoreAgent_saturates: "eligible task a \<Longrightarrow> scoreAgent now a task = 1"
  by (auto simp add: scoreAgent_def eligible_def Let_def split: if_splits)

text \<open>
  C2 does not hold on the code. With the 0.5 agent registered before the 0.9 agent, both
  online, and a task without metadata, \<open>findBestAgent\<close> returns the 0.5 agent, whatever the
  clock and the two heartbeats are: the baseline 0.5, the 0.3 for no requirement and the
  0.2 for being online already add up to 1, so both scores are capped at 1 and the stable
  sort keeps the registration order (registered the other way round, the 0.9 agent is
  returned). This is the scenario of the router test "should prefer agents with higher
  reputation", which expects the 0.9 agent.
\<close>

theorem C2_first_registered_selected:
  "map_option decision_agentId
     (findBestAgent now
        (register
          (register []
            \<lparr>agent_id = ''agent-1'', agent_name = ''Agent 1'', agent_type = LLM, capabilities = [],
              reputationScore = 0.5, lastHeartbeat = h1, agent_status = Online\<rparr>)
          \<lparr>agent_id = ''agent-2'', agent_name = ''Agent 2'', agent_type = LLM, capabilities = [],
            reputationScore = 0.9, lastHeartbeat = h2, agent_status = Online\<rparr>)
        (task\<lparr>metadata := Map.empty\<rparr>))
   = Some ''agent-1''
   \<and> map_option decision_agentId
     (findBestAgent now
        (register
          (register []
            \<lparr>agent_id = ''agent-2'', agent_name = ''Agent 2'', agent_type = LLM, capabilities = [],
              reputationScore = 0.9, lastHeartbeat = h2, agent_status = Online\<rparr>)
          \<lparr>agent_id = ''agent-1'', agent_name = ''Agent 1'', agent_type = LLM, capabilities = [],
            reputationScore = 0.5, lastHeartbeat = h1, agent_status = Online\<rparr>)
        (task\<lparr>metadata := Map.empty\<rparr>))
   = Some ''agent-2''
   \<and> scoreAgent now
        \<lparr>agent_id = ''agent-1'', agent_name = ''Agent 1'', agent_type = LLM, capabilities = [],
          reputationScore = 0.5, lastHeartbeat = h1, agent_status = Online\<rparr>
        (task\<lparr>metadata := Map.empty\<rparr>) = 1
   \<and> scoreAgent now
        \<lparr>agent_id = ''agent-2'', agent_name = ''Agent 2'', agent_type = LLM, capabilities = [],
          reputationScore = 0.9, lastHeartbeat = h2, agent_status = Online\<rparr>
        (task\<lparr>metadata := Map.empty\<rparr>) = 1"
  by (simp add: findBestAgent_def findCandidateAgents_def getAllAgents_def register_def
      scoreAgent_def getMeta_def Let_def)

section \<open>Task orchestrator: unknown ids\<close>

text \<open>
  C9: \<open>getTask\<close> on an id that is not in the task map, and \<open>getJob\<close> on an id that is not
  in the job map, raise a \<open>NexusError\<close> instead of returning a value; the error carries
  the error code \<open>INVALID_TASK\<close> and a message naming the id. On a known id the stored
  task or job is returned. Neither call changes the orchestrator.
\<close>

theorem C9_unknown_id_raises:
  "(tasks orch tid = None \<longrightarrow>
      fst (getTask now orch tid)
        = Inl \<lparr>code = INVALID_TASK, message = ''Task not found: '' @ tid, details = None,
               error_timestamp = now\<rparr>)
   \<and> (jobs orch jid = None \<longrightarrow>
      fst (getJob now orch jid)
        = Inl \<lparr>code = INVALID_TASK, message = ''Job not found: '' @ jid, details = None,
               error_timestamp = now\<rparr>)
   \<and> (tasks orch tid = Some t \<longrightarrow> fst (getTask now orch tid) = Inr t)
   \<and> (jobs orch jid = Some j \<longrightarrow> fst (getJob now orch jid) = Inr j)
   \<and> snd (getTask now orch tid) = orch
   \<and> snd (getJob now orch jid) = orch"
  by (simp add: getTask_def getJob_def newNexusError_def split: option.splits)


text \<open>
  C9 at an orchestrator holding one task and one job.
\<close>

theorem C9_unknown_id_raises_witness:
  "tasks \<lparr>tasks = [''task-1'' \<mapsto> testTask], jobs = [''job-1'' \<mapsto> testJob]\<rparr> ''task-2'' = None
   \<and> fst (getTask 7 \<lparr>tasks = [''task-1'' \<mapsto> testTask], jobs = [''job-1'' \<mapsto> testJob]\<rparr> ''task-2'')
       = Inl \<lparr>code = INVALID_TASK, message = ''Task not found: task-2'', details = None,
              error_timestamp = 7\<rparr>
   \<and> jobs \<lparr>tasks = [''task-1'' \<mapsto> testTask], jobs = [''job-1'' \<mapsto> testJob]\<rparr> ''job-2'' = None
   \<and> fst (getJob 7 \<lparr>tasks = [''task-1'' \<mapsto> testTask], jobs = [''job-1'' \<mapsto> testJob]\<rparr> ''job-2'')
       = Inl \<lparr>code = INVALID_TASK, message = ''Job not found: job-2'', details = None,
              error_timestamp = 7\<rparr>
   \<and> tasks \<lparr>tasks = [''task-1'' \<mapsto> testTask], jobs = [''job-1'' \<mapsto> testJob]\<rparr> ''task-1''
       = Some testTask
   \<and> fst (getTask 7 \<lparr>tasks = [''task-1'' \<mapsto> testTask], jobs = [''job-1'' \<mapsto> testJob]\<rparr> ''task-1'')
       = Inr testTask
   \<and> jobs \<lparr>tasks = [''task-1'' \<mapsto> testTask], jobs = [''job-1'' \<mapsto> testJob]\<rparr> ''job-1''
       = Some testJob
   \<and> fst (getJob 7 \<lparr>tasks = [''task-1'' \<mapsto> testTask], jobs = [''job-1'' \<mapsto> testJob]\<rparr> ''job-1'')
       = Inr testJob"
  using C9_unknown_id_raises [where orch="\<lparr>tasks = [''task-1'' \<mapsto> testTask], jobs = [''job-1'' \<mapsto> testJob]\<rparr>"
          and tid="''task-2''" and jid="''job-2''" and now=7]
        C9_unknown_id_raises [where orch="\<lparr>tasks = [''task-1'' \<mapsto> testTask], jobs = [''job-1'' \<mapsto> testJob]\<rparr>"
          and tid="''task-1''" and jid="''job-1''" and now=7 and t=testTask and j=testJob]
  by simp

end
